(* ===== verification/Prelude.thy ===== *)
theory Prelude
  imports Complex_Main "HOL-Library.Multiset"
begin

text \<open>
  Shared vocabulary of the development: the types that name the model's values
  (calendar days, timestamps), the page arithmetic that the paginated endpoint
  and its specification share, and generic lemmas on lists (slices made of
  \<open>take\<close>/\<open>drop\<close>, filters that count rows, descending sorts) that the
  component theories use through the collections declared here.
\<close>

named_theorems page_simps "facts about LIMIT/OFFSET slices and page counts"
named_theorems count_simps "facts about counting rows with filter"

type_synonym day = int
  \<comment> \<open>a calendar date as the number of days since 1970-01-01\<close>
type_synonym timestamp = int
  \<comment> \<open>a point in time as the number of seconds since 1970-01-01 00:00\<close>

definition seconds_per_day :: int where
  "seconds_per_day = 86400"

definition ceil_div :: "nat \<Rightarrow> nat \<Rightarrow> nat" where
  "ceil_div t n = (t + n - 1) div n"
  \<comment> \<open>the number of pages of size \<open>n\<close> that \<open>t\<close> rows fill, \<open>\<lceil>t / n\<rceil>\<close>\<close>

definition slice :: "nat \<Rightarrow> nat \<Rightarrow> 'a list \<Rightarrow> 'a list" where
  "slice cnt ofs xs = take cnt (drop ofs xs)"
  \<comment> \<open>SQL's \<open>LIMIT cnt OFFSET ofs\<close> over rows in storage order\<close>

lemma length_slice [page_simps, simp]:
  "length (slice cnt ofs xs) = min cnt (length xs - ofs)"
  by (simp add: slice_def)

lemma slice_eq_Nil_iff [page_simps]:
  "slice cnt ofs xs = [] \<longleftrightarrow> cnt = 0 \<or> length xs \<le> ofs"
  by (auto simp: slice_def)

lemma set_slice_subset [page_simps]: "set (slice cnt ofs xs) \<subseteq> set xs"
  by (auto simp: slice_def dest: in_set_takeD in_set_dropD)

lemma slice_all [page_simps]:
  "\<forall>x\<in>set xs. P x \<Longrightarrow> \<forall>x\<in>set (slice cnt ofs xs). P x"
  using set_slice_subset [of cnt ofs xs] by blast

lemma slice_append_next [page_simps]:
  "take (m * n) xs @ slice n (m * n) xs = take (Suc m * n) xs"
proof -
  have "take (m * n + n) xs = take (m * n) xs @ take n (drop (m * n) xs)"
    by (rule take_add)
  then show ?thesis by (simp add: slice_def add.commute)
qed

lemma concat_slices [page_simps]:
  "concat (map (\<lambda>i. slice n (i * n) xs) [0..<m]) = take (m * n) xs"
proof (induction m)
  case 0
  then show ?case by simp
next
  case (Suc m)
  then show ?case by (simp add: slice_append_next)
qed

lemma ceil_div_less_iff [page_simps]:
  assumes "0 < n"
  shows "k < ceil_div t n \<longleftrightarrow> k * n < t"
proof -
  have "k < (t + n - 1) div n \<longleftrightarrow> Suc k \<le> (t + n - 1) div n"
    by (rule Suc_le_eq [symmetric])
  also have "\<dots> \<longleftrightarrow> Suc k * n \<le> t + n - 1"
    using assms by (rule less_eq_div_iff_mult_less_eq)
  also have "\<dots> \<longleftrightarrow> k * n < t"
    using assms by auto
  finally show ?thesis by (simp add: ceil_div_def)
qed

lemma ceil_div_covers [page_simps]:
  assumes "0 < n"
  shows "t \<le> ceil_div t n * n"
proof (rule ccontr)
  assume "\<not> t \<le> ceil_div t n * n"
  then have "ceil_div t n * n < t" by simp
  then have "ceil_div t n < ceil_div t n"
    using ceil_div_less_iff [OF assms] by blast
  then show False by simp
qed

lemma take_ceil_div_pages [page_simps]:
  "0 < n \<Longrightarrow> take (ceil_div (length xs) n * n) xs = xs"
  by (simp add: ceil_div_covers)

lemma length_filter_conj_le [count_simps]:
  "length (filter (\<lambda>x. P x \<and> Q x) xs) \<le> length (filter P xs)"
  by (induction xs) auto

lemma sorted_desc_sort_key [count_simps]:
  "sorted_wrt (\<lambda>a b. g b \<le> g a) (sort_key (\<lambda>x. - g x) xs)" for g :: "'a \<Rightarrow> int"
proof -
  have "sorted (map (\<lambda>x. - g x) (sort_key (\<lambda>x. - g x) xs))"
    by (rule sorted_sort_key)
  then show ?thesis by (simp add: sorted_map)
qed

lemma set_map_filter_eq [count_simps]:
  "set (List.map_filter f xs) = {y. \<exists>x\<in>set xs. f x = Some y}"
  by (induction xs) (auto simp: List.map_filter_simps split: option.splits)

lemma sorted_desc_mset_unique:
  fixes xs ys :: "'a::linorder list"
  assumes "mset xs = mset ys"
    and "sorted_wrt (\<lambda>a b. b \<le> a) xs" and "sorted_wrt (\<lambda>a b. b \<le> a) ys"
  shows "xs = ys"
proof -
  have "sorted (rev xs)" and "sorted (rev ys)"
    using assms(2,3) by (simp_all add: sorted_wrt_rev)
  moreover have "mset (rev xs) = mset (rev ys)"
    using assms(1) by simp
  ultimately have "sort (rev ys) = rev xs" and "sort (rev ys) = rev ys"
    by (simp_all add: properties_for_sort)
  then show ?thesis by simp
qed

lemma sum_count_remdups [count_simps]:
  "(\<Sum>v\<leftarrow>remdups xs. count_list xs v) = length xs"
  by (simp add: sum_list_distinct_conv_sum_set sum_count_set)

lemma sum_list_count_partition:
  assumes "distinct vs" and "\<forall>x\<in>set xs. P x \<longrightarrow> (\<exists>v\<in>set vs. f x = Some v)"
  shows "(\<Sum>v\<leftarrow>vs. length (filter (\<lambda>x. f x = Some v \<and> P x) xs)) = length (filter P xs)"
  using assms(2)
proof (induction xs)
  case Nil
  then show ?case by (simp add: sum_list_triv)
next
  case (Cons x xs)
  have "(\<Sum>v\<leftarrow>vs. (if f x = Some v \<and> P x then 1 else 0) :: nat) = (if P x then 1 else 0)"
    using Cons.prems assms(1) by (auto simp: sum_list_distinct_conv_sum_set sum.delta)
  moreover have "(\<Sum>v\<leftarrow>vs. length (filter (\<lambda>y. f y = Some v \<and> P y) (x # xs))) =
      (\<Sum>v\<leftarrow>vs. (if f x = Some v \<and> P x then 1 else 0) + length (filter (\<lambda>y. f y = Some v \<and> P y) xs))"
    by (rule arg_cong [where f = sum_list], rule map_cong) simp_all
  ultimately show ?case using Cons by (simp add: sum_list_addf)
qed

lemma sum_count_list_upt:
  "\<forall>y\<in>set ys. y < n \<Longrightarrow> (\<Sum>k\<leftarrow>[0..<n]. count_list ys k) = length ys"
proof -
  assume "\<forall>y\<in>set ys. y < n"
  then have "sum (count_list ys) {0..<n} = length ys"
    by (intro sum_count_set) auto
  then show ?thesis by (simp add: sum_list_distinct_conv_sum_set atLeast0LessThan)
qed

lemma length_map_filter_all:
  "\<forall>x\<in>set xs. f x \<noteq> None \<Longrightarrow> length (List.map_filter f xs) = length xs"
  by (induction xs) (auto simp: List.map_filter_simps)

lemma mean_bounds:
  fixes xs :: "real list"
  assumes "xs \<noteq> []"
  shows "Min (set xs) \<le> sum_list xs / real (length xs) \<and>
         sum_list xs / real (length xs) \<le> Max (set xs)"
proof -
  have n: "0 < real (length xs)" using assms by simp
  have "(\<Sum>x\<leftarrow>xs. Min (set xs)) \<le> (\<Sum>x\<leftarrow>xs. x)"
    by (rule sum_list_mono) simp
  then have lo: "real (length xs) * Min (set xs) \<le> sum_list xs"
    by (simp add: sum_list_triv)
  have "(\<Sum>x\<leftarrow>xs. x) \<le> (\<Sum>x\<leftarrow>xs. Max (set xs))"
    by (rule sum_list_mono) simp
  then have hi: "sum_list xs \<le> real (length xs) * Max (set xs)"
    by (simp add: sum_list_triv)
  from lo hi n show ?thesis
    by (simp add: field_simps)
qed

end
