(* ===== verification/Dates.thy ===== *)
theory Dates
  imports Prelude "HOL-Library.Monad_Syntax"
begin

text \<open>
  Calendar dates as the two pipelines read them. A parsed date is its day
  number since 1970-01-01 (\<open>days_from_civil\<close>, proleptic Gregorian
  calendar). The two libraries read date strings differently:
  \<^item> polars' strict \<^verbatim>\<open>cast(pl.Date)\<close> (\<^verbatim>\<open>src/app/main.py\<close>, lines 30--33)
    parses each string with chrono's \<^verbatim>\<open>NaiveDate::from_str\<close>:
    \<open>naive_date_from_str\<close>, which allows white space around the items, a
    month and day of one or two digits, a year of up to four digits or a
    signed year of any length within chrono's range; a string it does not
    read makes the cast raise, \<open>cast_date\<close>'s \<open>Inl\<close>.
  \<^item> pandas' \<^verbatim>\<open>to_datetime(..., errors='coerce')\<close>
    (\<^verbatim>\<open>src/analytics/data_cleaning.py\<close>, lines 18--19) infers the format
    \<^verbatim>\<open>%Y-%m-%d\<close> from the dataset and reads each string with its ISO parser
    (\<open>pandas_iso_date\<close>: a four-digit year, then month and day of one or
    two digits); the result must fit \<^verbatim>\<open>datetime64[ns]\<close>
    (\<open>datetime64_ns_range\<close>, 1677-09-22 to 2262-04-11); anything else is
    null: \<open>to_datetime_coerce\<close>. pandas' fallback to \<^verbatim>\<open>dateutil\<close> when
    the first value is not ISO is not modelled.
  \<open>python_date_range\<close> is the range of Python's \<^verbatim>\<open>date\<close> (years 1..9999),
  which bounds the dates the API can hand back to Python. The lemmas count
  the leap days year by year (\<open>leaps_upto_step\<close>), show that every string
  pandas reads chrono reads to the same day (\<open>pandas_iso_date_chrono\<close>), and
  that the day number is strictly monotone in the calendar order of valid
  dates.
\<close>

definition digit_value :: "char \<Rightarrow> nat option" where
  "digit_value c =
     (if 48 \<le> (of_char c :: nat) \<and> (of_char c :: nat) \<le> 57 then Some (of_char c - 48) else None)"

fun digits_value :: "nat \<Rightarrow> string \<Rightarrow> nat option" where
  "digits_value acc [] = Some acc"
| "digits_value acc (c # cs) =
     (case digit_value c of None \<Rightarrow> None | Some v \<Rightarrow> digits_value (10 * acc + v) cs)"

definition is_leap :: "int \<Rightarrow> bool" where
  "is_leap y \<longleftrightarrow> 4 dvd y \<and> (\<not> 100 dvd y \<or> 400 dvd y)"

definition days_in_month :: "int \<Rightarrow> int \<Rightarrow> int" where
  "days_in_month y m =
     (if m = 2 then (if is_leap y then 29 else 28)
      else if m = 4 \<or> m = 6 \<or> m = 9 \<or> m = 11 then 30 else 31)"

definition valid_ymd :: "int \<Rightarrow> int \<Rightarrow> int \<Rightarrow> bool" where
  "valid_ymd y m d \<longleftrightarrow> 1 \<le> m \<and> m \<le> 12 \<and> 1 \<le> d \<and> d \<le> days_in_month y m"

definition leaps_upto :: "int \<Rightarrow> int" where
  "leaps_upto n = n div 4 - n div 100 + n div 400"
  \<comment> \<open>the leap years in \<open>1..n\<close>, for \<open>0 \<le> n\<close>; the floors keep it a
      difference count for negative \<open>n\<close> too\<close>

definition days_before_year :: "int \<Rightarrow> int" where
  "days_before_year y = 365 * (y - 1970) + (leaps_upto (y - 1) - leaps_upto 1969)"

definition days_before_month :: "int \<Rightarrow> int \<Rightarrow> int" where
  "days_before_month y m = (\<Sum>k\<leftarrow>[1..m - 1]. days_in_month y k)"

definition days_from_civil :: "int \<Rightarrow> int \<Rightarrow> int \<Rightarrow> day" where
  "days_from_civil y m d = days_before_year y + days_before_month y m + (d - 1)"

definition is_space :: "char \<Rightarrow> bool" where
  "is_space c \<longleftrightarrow> of_char c = (32::nat) \<or> (9 \<le> (of_char c :: nat) \<and> (of_char c :: nat) \<le> 13)"
  \<comment> \<open>ASCII white space: what Rust's \<^verbatim>\<open>trim_start\<close> and C's \<^verbatim>\<open>isspace\<close> skip\<close>

definition trim_start :: "string \<Rightarrow> string" where
  "trim_start s = dropWhile is_space s"

definition scan_number :: "nat \<Rightarrow> string \<Rightarrow> (nat \<times> string) option" where
  "scan_number w s =
     (let ds = take w (takeWhile (\<lambda>c. digit_value c \<noteq> None) s) in
      if ds = [] then None
      else map_option (\<lambda>n. (n, drop (length ds) s)) (digits_value 0 ds))"
  \<comment> \<open>chrono's \<^verbatim>\<open>scan::number(s, 1, w)\<close>: one to \<open>w\<close> decimal digits\<close>

definition scan_year :: "string \<Rightarrow> (int \<times> string) option" where
  "scan_year s =
     (case trim_start s of
        [] \<Rightarrow> None
      | c # r \<Rightarrow>
          if c = CHR ''-'' then map_option (\<lambda>(n, r'). (- int n, r')) (scan_number (length r) r)
          else if c = CHR ''+'' then map_option (\<lambda>(n, r'). (int n, r')) (scan_number (length r) r)
          else map_option (\<lambda>(n, r'). (int n, r')) (scan_number 4 (c # r)))"
  \<comment> \<open>chrono's \<^verbatim>\<open>Numeric::Year\<close>: four digits at most, any number after a sign\<close>

definition scan_dash :: "string \<Rightarrow> string option" where
  "scan_dash s = (case trim_start s of c # r \<Rightarrow> if c = CHR ''-'' then Some r else None | [] \<Rightarrow> None)"
  \<comment> \<open>\<^verbatim>\<open>Item::Space\<close> then \<^verbatim>\<open>Item::Literal("-")\<close>\<close>

definition chrono_year_range :: "int \<Rightarrow> bool" where
  "chrono_year_range y \<longleftrightarrow> -262143 \<le> y \<and> y \<le> 262142"
  \<comment> \<open>the years of \<^verbatim>\<open>NaiveDate::MIN\<close> .. \<^verbatim>\<open>NaiveDate::MAX\<close>\<close>

definition naive_date_from_str :: "string \<Rightarrow> day option" where
  "naive_date_from_str s =
     do {
       (y, r1) \<leftarrow> scan_year s;
       r2 \<leftarrow> scan_dash r1;
       (m, r3) \<leftarrow> scan_number 2 (trim_start r2);
       r4 \<leftarrow> scan_dash r3;
       (d, r5) \<leftarrow> scan_number 2 (trim_start r4);
       if trim_start r5 = [] \<and> chrono_year_range y \<and> valid_ymd y (int m) (int d)
       then Some (days_from_civil y (int m) (int d)) else None
     }"
  \<comment> \<open>chrono's \<^verbatim>\<open>NaiveDate::from_str\<close>, the parse behind polars' string to
      date cast: year, \<^verbatim>\<open>-\<close>, month, \<^verbatim>\<open>-\<close>, day, white space allowed
      around each item, month and day of one or two digits\<close>

definition pandas_iso_date :: "string \<Rightarrow> day option" where
  "pandas_iso_date s =
     (let r0 = trim_start s; ys = take 4 r0; r1 = drop 4 r0 in
      if length ys = 4 then
        do {
          y \<leftarrow> digits_value 0 ys;
          (m, r3) \<leftarrow> (case r1 of c # r2 \<Rightarrow> if c = CHR ''-'' then scan_number 2 r2 else None | [] \<Rightarrow> None);
          (d, r5) \<leftarrow> (case r3 of c # r4 \<Rightarrow> if c = CHR ''-'' then scan_number 2 r4 else None | [] \<Rightarrow> None);
          if r5 = [] \<and> valid_ymd (int y) (int m) (int d)
          then Some (days_from_civil (int y) (int m) (int d)) else None
        }
      else None)"
  \<comment> \<open>pandas' ISO 8601 parser for the format \<^verbatim>\<open>%Y-%m-%d\<close> it infers from the
      dataset: leading white space, a four-digit year, month and day of one or
      two digits after a separator\<close>

definition datetime64_ns_range :: "day \<Rightarrow> bool" where
  "datetime64_ns_range d \<longleftrightarrow>
     - (2 ^ 63) < d * 86400 * 10 ^ 9 \<and> d * 86400 * 10 ^ 9 < 2 ^ 63"
  \<comment> \<open>midnight of the day fits pandas' \<^verbatim>\<open>datetime64[ns]\<close>, an int64 count of
      nanoseconds (\<open>-2^63\<close> is \<^verbatim>\<open>NaT\<close>)\<close>

definition to_datetime_coerce :: "string option \<Rightarrow> day option" where
  "to_datetime_coerce v =
     (case v of None \<Rightarrow> None
      | Some s \<Rightarrow> (case pandas_iso_date s of
                     None \<Rightarrow> None
                   | Some d \<Rightarrow> if datetime64_ns_range d then Some d else None))"

definition str_to_date :: "string option \<Rightarrow> day option" where
  "str_to_date v = Option.bind v naive_date_from_str"
  \<comment> \<open>the value of a cell the strict cast accepts\<close>

definition cast_date :: "string option \<Rightarrow> string + day option" where
  "cast_date v =
     (case v of None \<Rightarrow> Inr None
      | Some s \<Rightarrow> (case naive_date_from_str s of None \<Rightarrow> Inl s | Some d \<Rightarrow> Inr (Some d)))"

definition python_date_range :: "day \<Rightarrow> bool" where
  "python_date_range d \<longleftrightarrow> days_from_civil 1 1 1 \<le> d \<and> d \<le> days_from_civil 9999 12 31"
  \<comment> \<open>\<^verbatim>\<open>datetime.date.min\<close> .. \<^verbatim>\<open>datetime.date.max\<close>: the days a Python
      \<^verbatim>\<open>date\<close> can hold\<close>

lemma cast_date_Inr_iff:
  "(\<exists>d. cast_date v = Inr d) \<longleftrightarrow> (\<forall>s. v = Some s \<longrightarrow> naive_date_from_str s \<noteq> None)"
  by (auto simp: cast_date_def split: option.splits)

lemma cast_date_Inr:
  "cast_date v = Inr d \<Longrightarrow> d = str_to_date v \<and> (d = None \<longleftrightarrow> v = None)"
  by (cases v; cases "str_to_date v") (auto simp: cast_date_def str_to_date_def split: option.splits)

lemma cast_date_Inl:
  "cast_date v = Inl s \<Longrightarrow> v = Some s \<and> naive_date_from_str s = None"
  by (auto simp: cast_date_def split: option.splits)

lemma to_datetime_coerce_None [simp]: "to_datetime_coerce None = None"
  by (simp add: to_datetime_coerce_def)

lemma year_days:
  "days_before_month y 13 = 365 + (if is_leap y then 1 else 0)"
  by (simp add: days_before_month_def upto.simps days_in_month_def)


lemma div_pred_step:
  fixes y k :: int
  assumes "0 < k"
  shows "y div k = (y - 1) div k + (if k dvd y then 1 else 0)"
proof -
  define r where "r = (y - 1) mod k"
  have m: "0 \<le> r" "r < k" using assms by (simp_all add: r_def)
  have "y div k = ((y - 1) + 1) div k" by simp
  also have "\<dots> = (y - 1) div k + 1 div k + (r + 1 mod k) div k"
    unfolding r_def by (rule div_add1_eq)
  finally have e: "y div k = (y - 1) div k + 1 div k + (r + 1 mod k) div k" .
  have ym: "y mod k = (r + 1) mod k"
    unfolding r_def by (metis diff_add_cancel mod_add_left_eq)
  show ?thesis
  proof (cases "k = 1")
    case True then show ?thesis by simp
  next
    case False
    then have k: "1 < k" using assms by simp
    show ?thesis
    proof (cases "r = k - 1")
      case True
      then have "k dvd y" using ym by (simp add: dvd_eq_mod_eq_0)
      then show ?thesis using e k True by simp
    next
      case False
      then have "r + 1 < k" using m by simp
      then have "\<not> k dvd y" "(r + 1) div k = 0" using ym m by (simp_all add: dvd_eq_mod_eq_0)
      then show ?thesis using e k by simp
    qed
  qed
qed

lemma leaps_upto_step:
  "leaps_upto y = leaps_upto (y - 1) + (if is_leap y then 1 else 0)"
proof -
  have d4: "4 dvd y" if "(100::int) dvd y"
    using dvd_trans [OF _ that, of 4] by simp
  have d100: "100 dvd y" if "(400::int) dvd y"
    using dvd_trans [OF _ that, of 100] by simp
  have "leaps_upto y - leaps_upto (y - 1) =
        (if 4 dvd y then 1 else 0) - (if 100 dvd y then 1 else 0) + (if 400 dvd y then 1 else 0)"
    using div_pred_step [of 4 y] div_pred_step [of 100 y] div_pred_step [of 400 y]
    by (simp add: leaps_upto_def)
  also have "\<dots> = (if is_leap y then 1 else 0)"
    using d4 d100 unfolding is_leap_def by (cases "4 dvd y"; cases "100 dvd y"; cases "400 dvd y") simp_all
  finally show ?thesis by simp
qed

lemma days_before_year_step:
  "days_before_year (y + 1) = days_before_year y + days_before_month y 13"
  using leaps_upto_step [of y] by (simp add: days_before_year_def year_days algebra_simps)

lemma days_in_month_pos: "0 < days_in_month y m"
  by (simp add: days_in_month_def)

lemma days_before_month_less:
  assumes "1 \<le> m" and "m < m'"
  shows "days_before_month y m + days_in_month y m \<le> days_before_month y m'"
proof -
  have "[1..m' - 1] = [1..m - 1] @ [m..m' - 1]"
    using assms by (simp add: upto_split1)
  moreover have "[m..m' - 1] = m # [m + 1..m' - 1]"
    using assms by (simp add: upto_rec1)
  moreover have "0 \<le> (\<Sum>k\<leftarrow>[m + 1..m' - 1]. days_in_month y k)"
    by (rule sum_list_nonneg) (auto simp: days_in_month_def)
  ultimately show ?thesis by (simp add: days_before_month_def)
qed

lemma valid_ymd_in_year:
  "valid_ymd y m d \<Longrightarrow> days_before_month y m + d \<le> days_before_month y 13"
  using days_before_month_less [of m 13 y] by (simp add: valid_ymd_def)

lemma days_before_year_less:
  assumes "y < y'"
  shows "days_before_year y + days_before_month y 13 \<le> days_before_year y'"
  using assms
proof (induction y' rule: int_gr_induct)
  case base
  then show ?case by (simp add: days_before_year_step)
next
  case (step j)
  have "0 \<le> days_before_month j 13" by (simp add: year_days)
  with step.IH show ?case by (simp add: days_before_year_step)
qed

lemma days_before_month_nonneg: "0 \<le> days_before_month y m"
  unfolding days_before_month_def
  by (rule sum_list_nonneg) (auto simp: days_in_month_def)

lemma digits_value_digits:
  "digits_value acc ds = Some n \<Longrightarrow> \<forall>c\<in>set ds. digit_value c \<noteq> None"
  by (induction acc ds rule: digits_value.induct) (auto split: option.splits)

lemma digits_value_bound:
  "digits_value acc ds = Some n \<Longrightarrow> n < (acc + 1) * 10 ^ length ds"
proof (induction acc ds arbitrary: n rule: digits_value.induct)
  case (1 acc)
  then show ?case by simp
next
  case (2 acc c cs)
  then obtain v where v: "digit_value c = Some v" and n: "digits_value (10 * acc + v) cs = Some n"
    by (auto split: option.splits)
  have "v < 10" using v by (auto simp: digit_value_def split: if_splits)
  then have "10 * acc + v + 1 \<le> (acc + 1) * 10" by simp
  have "n < (10 * acc + v + 1) * 10 ^ length cs" using "2.IH" [OF v n] by simp
  also have "\<dots> \<le> (acc + 1) * 10 * 10 ^ length cs"
    by (rule mult_right_mono) (use \<open>10 * acc + v + 1 \<le> (acc + 1) * 10\<close> in simp_all)
  finally have "n < (acc + 1) * (10 * 10 ^ length cs)" by (simp only: mult.assoc)
  then show ?case by simp
qed

lemma digit_not_space: "digit_value c \<noteq> None \<Longrightarrow> \<not> is_space c"
  by (auto simp: digit_value_def is_space_def split: if_splits)

lemma trim_start_Cons: "\<not> is_space c \<Longrightarrow> trim_start (c # r) = c # r"
  by (simp add: trim_start_def)

lemma trim_start_idem: "trim_start (trim_start s) = trim_start s"
  by (induction s) (auto simp: trim_start_def)

lemma scan_number_trim:
  assumes "scan_number w s = Some x"
  shows "trim_start s = s"
proof (cases s)
  case (Cons c r)
  then have "digit_value c \<noteq> None"
    using assms by (auto simp: scan_number_def Let_def split: if_splits)
  then show ?thesis using Cons by (simp add: trim_start_Cons digit_not_space)
qed (simp add: trim_start_def)

lemma take_takeWhile_all:
  "\<forall>x\<in>set (take n xs). P x \<Longrightarrow> take n (takeWhile P xs) = take n xs"
  by (induction xs arbitrary: n) (auto simp: take_Cons split: nat.splits)

lemma dash_not_space: "\<not> is_space (CHR ''-'')"
  by (simp add: is_space_def)

lemma scan_year_digits:
  assumes "length (take 4 r0) = 4" and "digits_value 0 (take 4 r0) = Some y" and "trim_start s = r0"
  shows "scan_year s = Some (int y, drop 4 r0)"
proof -
  have dig: "\<forall>c\<in>set (take 4 r0). digit_value c \<noteq> None"
    using assms(2) by (rule digits_value_digits)
  obtain c r where r0: "r0 = c # r" using assms(1) by (cases r0) auto
  have c: "digit_value c \<noteq> None" using dig r0 by simp
  then have "c \<noteq> CHR ''-''" "c \<noteq> CHR ''+''" by (auto simp: digit_value_def)
  moreover have "take 4 (takeWhile (\<lambda>c. digit_value c \<noteq> None) r0) = take 4 r0"
    using dig by (rule take_takeWhile_all)
  ultimately have "scan_year s = map_option (\<lambda>(n, r'). (int n, r')) (scan_number 4 r0)"
    using assms(3) r0 by (simp add: scan_year_def)
  moreover have "scan_number 4 r0 = Some (y, drop 4 r0)"
    unfolding scan_number_def Let_def \<open>take 4 (takeWhile (\<lambda>c. digit_value c \<noteq> None) r0) = take 4 r0\<close>
    using assms(1,2) by auto
  ultimately show ?thesis by simp
qed

lemma pandas_iso_date_chrono:
  assumes "pandas_iso_date s = Some d"
  shows "naive_date_from_str s = Some d"
proof -
  define r0 where "r0 = trim_start s"
  have "\<exists>y r2 m r3 r4 dd. length (take 4 r0) = 4 \<and> digits_value 0 (take 4 r0) = Some y \<and>
          drop 4 r0 = CHR ''-'' # r2 \<and> scan_number 2 r2 = Some (m, r3) \<and>
          r3 = CHR ''-'' # r4 \<and> scan_number 2 r4 = Some (dd, []) \<and>
          valid_ymd (int y) (int m) (int dd) \<and> d = days_from_civil (int y) (int m) (int dd)"
    using assms
    by (auto simp: pandas_iso_date_def r0_def [symmetric] Let_def bind_eq_Some_conv
             split: if_splits list.splits)
  then obtain y r2 m r3 r4 dd where l4: "length (take 4 r0) = 4" and y: "digits_value 0 (take 4 r0) = Some y"
    and r1: "drop 4 r0 = CHR ''-'' # r2" and m: "scan_number 2 r2 = Some (m, r3)"
    and r3: "r3 = CHR ''-'' # r4" and dd: "scan_number 2 r4 = Some (dd, [])"
    and v: "valid_ymd (int y) (int m) (int dd)" and d: "d = days_from_civil (int y) (int m) (int dd)"
    by blast
  have sy: "scan_year s = Some (int y, drop 4 r0)"
    using l4 y r0_def by (intro scan_year_digits) simp_all
  have "y < 10000"
    using digits_value_bound [OF y] l4 by simp
  then have yr: "chrono_year_range (int y)" by (simp add: chrono_year_range_def)
  have t2: "trim_start r2 = r2" and t4: "trim_start r4 = r4"
    using scan_number_trim [OF m] scan_number_trim [OF dd] .
  show ?thesis
    using sy r1 m r3 dd v yr t2 t4
    by (simp add: naive_date_from_str_def d scan_dash_def trim_start_Cons dash_not_space)
       (simp add: trim_start_def)
qed
lemma to_datetime_coerce_chrono:
  "to_datetime_coerce (Some s) = Some d \<Longrightarrow> naive_date_from_str s = Some d \<and> datetime64_ns_range d"
  by (auto simp: to_datetime_coerce_def pandas_iso_date_chrono split: option.splits if_splits)

lemma to_datetime_coerce_far:
  "naive_date_from_str s = Some d \<Longrightarrow> \<not> datetime64_ns_range d \<Longrightarrow> to_datetime_coerce (Some s) = None"
  using to_datetime_coerce_chrono [of s] by (cases "to_datetime_coerce (Some s)") auto

text \<open>Day numbers follow the calendar: of two valid dates, the earlier one
  (by year, then month, then day) has the smaller day number. So the
  difference of two parsed dates, which is what both pipelines compute, is
  positive exactly when the later date comes later in the calendar.\<close>

theorem days_from_civil_strict_mono:
  assumes "valid_ymd y m d" and "valid_ymd y' m' d'"
    and "y < y' \<or> y = y' \<and> (m < m' \<or> m = m' \<and> d < d')"
  shows "days_from_civil y m d < days_from_civil y' m' d'"
  using assms(3)
proof (elim disjE conjE)
  assume "y < y'"
  moreover note valid_ymd_in_year [OF assms(1)] days_before_month_nonneg [of y' m']
  moreover have "1 \<le> d'" using assms(2) by (simp add: valid_ymd_def)
  ultimately show ?thesis
    using days_before_year_less [of y y'] by (simp add: days_from_civil_def)
next
  assume "y = y'" and "m < m'"
  moreover have "d \<le> days_in_month y m" "1 \<le> m" "1 \<le> d'"
    using assms(1,2) by (simp_all add: valid_ymd_def)
  ultimately show ?thesis
    using days_before_month_less [of m m' y] by (simp add: days_from_civil_def)
next
  assume "y = y'" and "m = m'" and "d < d'"
  then show ?thesis by (simp add: days_from_civil_def)
qed

theorem days_from_civil_strict_mono_witness:
  "valid_ymd 2023 1 15 \<and> valid_ymd 2024 2 29 \<and>
   days_from_civil 2023 1 15 < days_from_civil 2024 2 29"
proof -
  have v: "valid_ymd 2023 1 15" "valid_ymd 2024 2 29"
    by (simp_all add: valid_ymd_def days_in_month_def is_leap_def)
  show ?thesis using days_from_civil_strict_mono [OF v] v by simp
qed

end
