(* ===== verification/Member.thy ===== *)
theory Member
  imports Dates
begin

text \<open>
  The data model. A row of the member dataset (the CSV read by both
  \<^verbatim>\<open>src/analytics/data_cleaning.py\<close> and \<^verbatim>\<open>src/app/main.py\<close>) is the record
  \<open>'d member_row\<close>: one field per column, in the CSV's column order, each
  \<open>option\<close> because any cell may be empty (a null of the dataframe, a NULL of
  the store). The date columns have type \<open>'d\<close>: strings before parsing
  (\<open>raw_row\<close>), day numbers after (\<open>row\<close>).

  The response models of \<^verbatim>\<open>src/app/schemas.py\<close> are the records
  \<open>MemberData\<close> and \<open>PaginatedItems\<close>; pydantic's construction of a
  \<open>MemberData\<close> from a result tuple is \<open>to_member_data\<close>, which fails, as the
  \<^verbatim>\<open>ValidationError\<close> does, with the list of the fields that are null.
  Errors an endpoint returns are values of \<open>api_error\<close>. A stored date is a
  day number that polars and DuckDB keep for any year chrono reads; only the
  rows with \<open>row_dates_in_range\<close> can be converted to Python objects.
\<close>

record 'd member_row =
  member_id :: "int option"
  name :: "string option"
  age :: "real option"
  gender :: "string option"
  address :: "string option"
  phone_number :: "string option"
  membership_type :: "string option"
  join_date :: "'d option"
  last_visit_date :: "'d option"
  favorite_exercise :: "string option"
  avg_workout_duration_min :: "int option"
  avg_calories_burned :: "real option"
  total_weight_lifted_kg :: "real option"
  visits_per_month :: "real option"
  churn :: "string option"

type_synonym raw_row = "string member_row"
type_synonym row = "day member_row"
type_synonym table = "row list"

record MemberData =
  Member_ID :: int
  Name :: string
  Age :: real
  Gender :: string
  Address :: string
  Phone_Number :: string
  Membership_Type :: string
  Join_Date :: day
  Last_Visit_Date :: day
  Favorite_Exercise :: string
  Avg_Workout_Duration_Min :: int
  Avg_Calories_Burned :: real
  Total_Weight_Lifted_kg :: real
  Visits_Per_Month :: real
  Churn :: string

record PaginatedItems =
  MemberData :: "MemberData list"
  total :: int
  page :: int
  page_size :: int

datatype api_error =
    Request_Validation_Error "string list"
    \<comment> \<open>FastAPI's 422 answer: the query parameters that break their constraints\<close>
  | Internal_Server_Error string
    \<comment> \<open>an exception escaping a handler: FastAPI's 500 answer\<close>

definition null_fields :: "row \<Rightarrow> string list" where
  "null_fields r =
     map fst (filter (\<lambda>(_, present). \<not> present)
       [(''Member_ID'', member_id r \<noteq> None),
        (''Name'', name r \<noteq> None),
        (''Age'', age r \<noteq> None),
        (''Gender'', gender r \<noteq> None),
        (''Address'', address r \<noteq> None),
        (''Phone_Number'', phone_number r \<noteq> None),
        (''Membership_Type'', membership_type r \<noteq> None),
        (''Join_Date'', join_date r \<noteq> None),
        (''Last_Visit_Date'', last_visit_date r \<noteq> None),
        (''Favorite_Exercise'', favorite_exercise r \<noteq> None),
        (''Avg_Workout_Duration_Min'', avg_workout_duration_min r \<noteq> None),
        (''Avg_Calories_Burned'', avg_calories_burned r \<noteq> None),
        (''Total_Weight_Lifted_kg'', total_weight_lifted_kg r \<noteq> None),
        (''Visits_Per_Month'', visits_per_month r \<noteq> None),
        (''Churn'', churn r \<noteq> None)])"

definition to_member_data :: "row \<Rightarrow> string list + MemberData" where
  "to_member_data r =
     (if null_fields r = [] then
        Inr \<lparr>Member_ID = the (member_id r), Name = the (name r), Age = the (age r),
             Gender = the (gender r), Address = the (address r),
             Phone_Number = the (phone_number r),
             Membership_Type = the (membership_type r),
             Join_Date = the (join_date r), Last_Visit_Date = the (last_visit_date r),
             Favorite_Exercise = the (favorite_exercise r),
             Avg_Workout_Duration_Min = the (avg_workout_duration_min r),
             Avg_Calories_Burned = the (avg_calories_burned r),
             Total_Weight_Lifted_kg = the (total_weight_lifted_kg r),
             Visits_Per_Month = the (visits_per_month r), Churn = the (churn r)\<rparr>
      else Inl (null_fields r))"

fun to_member_data_list :: "row list \<Rightarrow> string list + MemberData list" where
  "to_member_data_list [] = Inr []"
| "to_member_data_list (r # rs) =
     (case to_member_data r of
        Inl e \<Rightarrow> Inl e
      | Inr m \<Rightarrow> (case to_member_data_list rs of Inl e \<Rightarrow> Inl e | Inr ms \<Rightarrow> Inr (m # ms)))"

definition of_member_data :: "MemberData \<Rightarrow> row" where
  "of_member_data m =
     \<lparr>member_id = Some (Member_ID m), name = Some (Name m), age = Some (Age m),
      gender = Some (Gender m), address = Some (Address m),
      phone_number = Some (Phone_Number m), membership_type = Some (Membership_Type m),
      join_date = Some (Join_Date m), last_visit_date = Some (Last_Visit_Date m),
      favorite_exercise = Some (Favorite_Exercise m),
      avg_workout_duration_min = Some (Avg_Workout_Duration_Min m),
      avg_calories_burned = Some (Avg_Calories_Burned m),
      total_weight_lifted_kg = Some (Total_Weight_Lifted_kg m),
      visits_per_month = Some (Visits_Per_Month m), churn = Some (Churn m)\<rparr>"

definition complete_row :: "row \<Rightarrow> bool" where
  "complete_row r \<longleftrightarrow> null_fields r = []"

definition row_dates_in_range :: "row \<Rightarrow> bool" where
  "row_dates_in_range r \<longleftrightarrow>
     (case join_date r of None \<Rightarrow> True | Some d \<Rightarrow> python_date_range d) \<and>
     (case last_visit_date r of None \<Rightarrow> True | Some d \<Rightarrow> python_date_range d)"
  \<comment> \<open>both dates of the row can be Python \<^verbatim>\<open>date\<close> objects, so that polars'
      \<^verbatim>\<open>to_dicts()\<close> and DuckDB's \<^verbatim>\<open>fetchall()\<close> can hand the row to Python\<close>

lemma null_fields_Nil_iff:
  "null_fields r = [] \<longleftrightarrow>
     member_id r \<noteq> None \<and> name r \<noteq> None \<and> age r \<noteq> None \<and> gender r \<noteq> None \<and>
     address r \<noteq> None \<and> phone_number r \<noteq> None \<and> membership_type r \<noteq> None \<and>
     join_date r \<noteq> None \<and> last_visit_date r \<noteq> None \<and> favorite_exercise r \<noteq> None \<and>
     avg_workout_duration_min r \<noteq> None \<and> avg_calories_burned r \<noteq> None \<and>
     total_weight_lifted_kg r \<noteq> None \<and> visits_per_month r \<noteq> None \<and> churn r \<noteq> None"
  by (simp add: null_fields_def)

lemma to_member_data_Inr_iff:
  "(\<exists>m. to_member_data r = Inr m) \<longleftrightarrow> complete_row r"
  by (simp add: to_member_data_def complete_row_def)

lemma to_member_data_Inl:
  "to_member_data r = Inl e \<Longrightarrow> e = null_fields r \<and> e \<noteq> []"
  by (auto simp: to_member_data_def split: if_splits)

lemma of_to_member_data:
  "to_member_data r = Inr m \<Longrightarrow> of_member_data m = r"
  by (auto simp: to_member_data_def of_member_data_def null_fields_Nil_iff split: if_splits)

lemma to_of_member_data: "to_member_data (of_member_data m) = Inr m"
  by (simp add: to_member_data_def of_member_data_def null_fields_def)

lemma to_member_data_list_Inr_iff:
  "(\<exists>ms. to_member_data_list rs = Inr ms) \<longleftrightarrow> (\<forall>r\<in>set rs. complete_row r)"
proof (induction rs)
  case Nil
  then show ?case by simp
next
  case (Cons r rs)
  then show ?case
    by (auto simp flip: to_member_data_Inr_iff split: sum.splits)
qed

lemma to_member_data_list_map:
  "to_member_data_list rs = Inr ms \<Longrightarrow> map of_member_data ms = rs"
proof (induction rs arbitrary: ms)
  case Nil
  then show ?case by simp
next
  case (Cons r rs)
  then show ?case
    by (auto simp: of_to_member_data split: sum.splits)
qed

lemma to_member_data_list_length:
  "to_member_data_list rs = Inr ms \<Longrightarrow> length ms = length rs"
  using to_member_data_list_map by fastforce

lemma to_member_data_list_Inl:
  "to_member_data_list rs = Inl e \<Longrightarrow> \<exists>r\<in>set rs. null_fields r = e \<and> e \<noteq> []"
proof (induction rs)
  case Nil
  then show ?case by simp
next
  case (Cons r rs)
  then show ?case
    by (auto dest: to_member_data_Inl split: sum.splits)
qed

end
