(* ===== verification/Serving.thy ===== *)
theory Serving
  imports Member Dates
begin

text \<open>
  The serving load stage, the module-level code of \<^verbatim>\<open>src/app/main.py\<close>
  (lines 17--33) that turns the raw CSV rows into the table the API serves:
  \<^item> \<open>fill_serving_nulls\<close> is the \<^verbatim>\<open>with_columns\<close> of lines 18--24: a
    missing name becomes \<^verbatim>\<open>'Test Name'\<close>, a missing age, calories, weight
    or visit count becomes the mean of the column's present values
    (\<open>col_mean\<close>, polars' \<^verbatim>\<open>mean()\<close>, null when the column has no value,
    so that \<^verbatim>\<open>fill_null\<close> then leaves the cell null). All five means are
    taken over the input of \<^verbatim>\<open>with_columns\<close>, before any row is dropped.
    Python floats are modelled as exact reals: rounding is not modelled.
  \<^item> \<open>drop_null_join_date\<close> is \<^verbatim>\<open>drop_nulls(subset=["Join_Date"])\<close>
    (line 27).
  \<^item> \<open>cast_dates\<close> is the strict \<^verbatim>\<open>cast(pl.Date)\<close> of both date columns
    (lines 30--33): the column \<open>Join_Date\<close> is cast first, then
    \<open>Last_Visit_Date\<close>; a string that chrono's \<open>naive_date_from_str\<close> does
    not read aborts the load with \<open>Cast_Error\<close>.
  \<open>serving_load\<close> composes them as the module does.
\<close>

datatype load_error = Cast_Error string string
  \<comment> \<open>the column and the value that polars could not cast to a date\<close>

definition serving_name_placeholder :: string where
  "serving_name_placeholder = ''Test Name''"

definition col_mean :: "('r \<Rightarrow> real option) \<Rightarrow> 'r list \<Rightarrow> real option" where
  "col_mean f rs =
     (let vs = List.map_filter f rs in
      if vs = [] then None else Some (sum_list vs / real (length vs)))"

definition fill_null :: "'a option \<Rightarrow> 'a option \<Rightarrow> 'a option" where
  "fill_null fill v = (case v of None \<Rightarrow> fill | Some x \<Rightarrow> Some x)"

definition fill_serving_row ::
  "real option \<Rightarrow> real option \<Rightarrow> real option \<Rightarrow> real option \<Rightarrow> raw_row \<Rightarrow> raw_row" where
  "fill_serving_row m_age m_cal m_wt m_vis r =
     r\<lparr>name := fill_null (Some serving_name_placeholder) (name r),
       age := fill_null m_age (age r),
       avg_calories_burned := fill_null m_cal (avg_calories_burned r),
       total_weight_lifted_kg := fill_null m_wt (total_weight_lifted_kg r),
       visits_per_month := fill_null m_vis (visits_per_month r)\<rparr>"

definition fill_serving_nulls :: "raw_row list \<Rightarrow> raw_row list" where
  "fill_serving_nulls df =
     (let m_age = col_mean age df;
          m_cal = col_mean avg_calories_burned df;
          m_wt = col_mean total_weight_lifted_kg df;
          m_vis = col_mean visits_per_month df in
      map (fill_serving_row m_age m_cal m_wt m_vis) df)"

definition drop_null_join_date :: "raw_row list \<Rightarrow> raw_row list" where
  "drop_null_join_date df = filter (\<lambda>r. join_date r \<noteq> None) df"

fun cast_column :: "string option list \<Rightarrow> string + day option list" where
  "cast_column [] = Inr []"
| "cast_column (v # vs) =
     (case cast_date v of
        Inl s \<Rightarrow> Inl s
      | Inr d \<Rightarrow> (case cast_column vs of Inl s \<Rightarrow> Inl s | Inr ds \<Rightarrow> Inr (d # ds)))"

definition with_dates :: "'a member_row \<Rightarrow> 'b option \<Rightarrow> 'b option \<Rightarrow> 'b member_row" where
  "with_dates r j l =
     \<lparr>member_id = member_id r, name = name r, age = age r, gender = gender r,
      address = address r, phone_number = phone_number r,
      membership_type = membership_type r, join_date = j, last_visit_date = l,
      favorite_exercise = favorite_exercise r,
      avg_workout_duration_min = avg_workout_duration_min r,
      avg_calories_burned = avg_calories_burned r,
      total_weight_lifted_kg = total_weight_lifted_kg r,
      visits_per_month = visits_per_month r, churn = churn r\<rparr>"

definition cast_dates :: "raw_row list \<Rightarrow> load_error + table" where
  "cast_dates df =
     (case cast_column (map join_date df) of
        Inl s \<Rightarrow> Inl (Cast_Error ''Join_Date'' s)
      | Inr js \<Rightarrow>
          (case cast_column (map last_visit_date df) of
             Inl s \<Rightarrow> Inl (Cast_Error ''Last_Visit_Date'' s)
           | Inr ls \<Rightarrow> Inr (map (\<lambda>(r, j, l). with_dates r j l) (zip df (zip js ls)))))"

definition serving_load :: "raw_row list \<Rightarrow> load_error + table" where
  "serving_load raw = cast_dates (drop_null_join_date (fill_serving_nulls raw))"

definition dates_parse :: "raw_row \<Rightarrow> bool" where
  "dates_parse r \<longleftrightarrow>
     (case join_date r of None \<Rightarrow> True | Some s \<Rightarrow> naive_date_from_str s \<noteq> None) \<and>
     (case last_visit_date r of None \<Rightarrow> True | Some s \<Rightarrow> naive_date_from_str s \<noteq> None)"
  \<comment> \<open>the row's date cells are null or dates: the strict cast accepts it\<close>

definition raw_member ::
  "int \<Rightarrow> string option \<Rightarrow> real option \<Rightarrow> string option \<Rightarrow> string option \<Rightarrow> raw_row" where
  "raw_member i nm a j l =
     \<lparr>member_id = Some i, name = nm, age = a, gender = Some ''Male'',
      address = Some ''Elm Street'', phone_number = Some ''555-0199'',
      membership_type = Some ''Monthly'', join_date = j, last_visit_date = l,
      favorite_exercise = Some ''Cycling'', avg_workout_duration_min = Some 30,
      avg_calories_burned = Some 300, total_weight_lifted_kg = Some 500,
      visits_per_month = Some 10, churn = Some ''No''\<rparr>"

definition sample_raw :: "raw_row list" where
  "sample_raw =
     [raw_member 1 (Some ''Ann'') (Some 20) (Some ''2023-01-15'') (Some ''2024-03-01''),
      raw_member 2 None None (Some ''2022-06-30'') None,
      raw_member 3 (Some ''Bo'') (Some 40) None (Some ''2024-01-01''),
      raw_member 4 (Some ''Cy'') (Some 60) (Some ''2021-11-2'') (Some '' 2023-12-24'')]"
  \<comment> \<open>a missing name and age (row 2), a missing join date (row 3), an unpadded
      day and a leading blank (row 4), which polars' cast accepts\<close>

definition sample_raw_bad :: "raw_row list" where
  "sample_raw_bad = sample_raw @ [raw_member 5 (Some ''Di'') (Some 33) (Some ''15/01/2023'') None]"
  \<comment> \<open>a join date in another format\<close>

lemma cast_column_Inr:
  "cast_column vs = Inr ds \<Longrightarrow> ds = map str_to_date vs"
proof (induction vs arbitrary: ds)
  case Nil
  then show ?case by simp
next
  case (Cons v vs)
  then show ?case
    by (auto dest: cast_date_Inr split: sum.splits)
qed

lemma cast_column_Inr_iff:
  "(\<exists>ds. cast_column vs = Inr ds) \<longleftrightarrow>
   (\<forall>v\<in>set vs. case v of None \<Rightarrow> True | Some s \<Rightarrow> naive_date_from_str s \<noteq> None)"
proof (induction vs)
  case Nil
  then show ?case by simp
next
  case (Cons v vs)
  have "(\<exists>d. cast_date v = Inr d) \<longleftrightarrow> (case v of None \<Rightarrow> True | Some s \<Rightarrow> naive_date_from_str s \<noteq> None)"
    by (simp add: cast_date_Inr_iff split: option.split)
  with Cons show ?case
    by (auto split: sum.splits)
qed

lemma cast_column_Inl:
  "cast_column vs = Inl s \<Longrightarrow> Some s \<in> set vs \<and> naive_date_from_str s = None"
proof (induction vs)
  case Nil
  then show ?case by simp
next
  case (Cons v vs)
  then show ?case
    by (auto dest: cast_date_Inl split: sum.splits)
qed

lemma map_zip_self:
  "map (\<lambda>(r, j, l). h r j l) (zip xs (zip (map f xs) (map g xs))) = map (\<lambda>r. h r (f r) (g r)) xs"
  by (induction xs) auto

lemma cast_dates_Inr:
  "cast_dates df = Inr t \<Longrightarrow>
   t = map (\<lambda>r. with_dates r (str_to_date (join_date r)) (str_to_date (last_visit_date r))) df"
  by (auto simp: cast_dates_def map_zip_self dest!: cast_column_Inr split: sum.splits)

lemma cast_dates_Inr_iff:
  "(\<exists>t. cast_dates df = Inr t) \<longleftrightarrow> (\<forall>r\<in>set df. dates_parse r)"
proof -
  have "(\<exists>t. cast_dates df = Inr t) \<longleftrightarrow>
        (\<exists>js. cast_column (map join_date df) = Inr js) \<and>
        (\<exists>ls. cast_column (map last_visit_date df) = Inr ls)"
    by (auto simp: cast_dates_def split: sum.splits)
  then show ?thesis
    by (auto simp: cast_column_Inr_iff dates_parse_def)
qed

lemma with_dates_fields [simp]:
  "member_id (with_dates r j l) = member_id r" "name (with_dates r j l) = name r"
  "age (with_dates r j l) = age r" "join_date (with_dates r j l) = j"
  "last_visit_date (with_dates r j l) = l"
  "membership_type (with_dates r j l) = membership_type r"
  "churn (with_dates r j l) = churn r"
  "favorite_exercise (with_dates r j l) = favorite_exercise r"
  by (simp_all add: with_dates_def)

lemma fill_serving_row_fields [simp]:
  "member_id (fill_serving_row a c w v r) = member_id r"
  "join_date (fill_serving_row a c w v r) = join_date r"
  "last_visit_date (fill_serving_row a c w v r) = last_visit_date r"
  "name (fill_serving_row a c w v r) = fill_null (Some serving_name_placeholder) (name r)"
  "age (fill_serving_row a c w v r) = fill_null a (age r)"
  by (simp_all add: fill_serving_row_def)

lemma serving_load_Inr:
  "serving_load raw = Inr t \<Longrightarrow>
   t = map (\<lambda>r. with_dates
              (fill_serving_row (col_mean age raw) (col_mean avg_calories_burned raw)
                 (col_mean total_weight_lifted_kg raw) (col_mean visits_per_month raw) r)
              (str_to_date (join_date r)) (str_to_date (last_visit_date r)))
         (filter (\<lambda>r. join_date r \<noteq> None) raw)"
  by (auto simp: serving_load_def fill_serving_nulls_def drop_null_join_date_def filter_map
                 comp_def dest!: cast_dates_Inr)

lemma serving_load_Inr_iff:
  "(\<exists>t. serving_load raw = Inr t) \<longleftrightarrow> (\<forall>r\<in>set raw. join_date r \<noteq> None \<longrightarrow> dates_parse r)"
  by (auto simp: serving_load_def cast_dates_Inr_iff fill_serving_nulls_def drop_null_join_date_def
                 dates_parse_def)

lemma dates_parse_join_date:
  "dates_parse r \<Longrightarrow> join_date r \<noteq> None \<Longrightarrow> str_to_date (join_date r) \<noteq> None"
  by (auto simp: dates_parse_def str_to_date_def split: option.splits)

lemma fill_null_Some_iff: "fill_null m v \<noteq> None \<longleftrightarrow> v \<noteq> None \<or> m \<noteq> None"
  by (simp add: fill_null_def split: option.split)

lemma col_mean_Some_iff: "col_mean f rs \<noteq> None \<longleftrightarrow> (\<exists>r\<in>set rs. f r \<noteq> None)"
  by (auto simp: col_mean_def Let_def set_map_filter_eq simp flip: set_empty)

lemma cast_dates_Inl:
  "cast_dates df = Inl (Cast_Error c v) \<Longrightarrow>
   naive_date_from_str v = None \<and>
   (c = ''Join_Date'' \<and> Some v \<in> join_date ` set df \<or>
    c = ''Last_Visit_Date'' \<and> Some v \<in> last_visit_date ` set df)"
  by (auto simp: cast_dates_def dest!: cast_column_Inl split: sum.splits)

lemma serving_load_Inl:
  "serving_load raw = Inl (Cast_Error c v) \<Longrightarrow> naive_date_from_str v = None"
  by (simp add: serving_load_def cast_dates_Inl)

lemma sample_raw_loads:
  "serving_load sample_raw =
     Inr (map (\<lambda>r. with_dates
              (fill_serving_row (col_mean age sample_raw) (col_mean avg_calories_burned sample_raw)
                 (col_mean total_weight_lifted_kg sample_raw) (col_mean visits_per_month sample_raw) r)
              (str_to_date (join_date r)) (str_to_date (last_visit_date r)))
         (filter (\<lambda>r. join_date r \<noteq> None) sample_raw))"
proof -
  have "\<forall>r\<in>set sample_raw. join_date r \<noteq> None \<longrightarrow> dates_parse r"
    by code_simp
  then obtain t where t: "serving_load sample_raw = Inr t"
    using serving_load_Inr_iff by blast
  then show ?thesis using serving_load_Inr [OF t] by simp
qed

subsection \<open>Properties of the serving load\<close>

text \<open>C13. Every row of the loaded table has a join date: rows without one are
  dropped before the table is built (the invariant the store relies on).\<close>

theorem serving_load_join_date_present:
  "serving_load raw = Inr t \<Longrightarrow> \<forall>r\<in>set t. join_date r \<noteq> None"
proof -
  assume a: "serving_load raw = Inr t"
  then have "\<forall>r\<in>set raw. join_date r \<noteq> None \<longrightarrow> dates_parse r"
    using serving_load_Inr_iff by blast
  with serving_load_Inr [OF a] show ?thesis
    by (auto dest: dates_parse_join_date)
qed

theorem serving_load_join_date_present_witness:
  "list_all (\<lambda>r. join_date r \<noteq> None) (projr (serving_load sample_raw))"
  using serving_load_join_date_present [OF sample_raw_loads] sample_raw_loads
  by (simp add: list_all_iff)

text \<open>C14. The load keeps exactly the raw rows that have a join date, in their
  order, with their member ids.\<close>

theorem serving_load_keeps_rows:
  "serving_load raw = Inr t \<Longrightarrow> map member_id t = map member_id (filter (\<lambda>r. join_date r \<noteq> None) raw)"
  by (drule serving_load_Inr) simp

theorem serving_load_keeps_rows_witness:
  "map member_id (projr (serving_load sample_raw)) = [Some 1, Some 2, Some 4]"
proof -
  have "map member_id (projr (serving_load sample_raw)) =
        map member_id (filter (\<lambda>r. join_date r \<noteq> None) sample_raw)"
    using serving_load_keeps_rows [OF sample_raw_loads] sample_raw_loads by simp
  also have "\<dots> = [Some 1, Some 2, Some 4]"
    by (simp add: sample_raw_def raw_member_def)
  finally show ?thesis .
qed

text \<open>C15. The load succeeds when every date cell of every row that has a join
  date parses, and the table then has one row per raw row with a join date.\<close>

theorem serving_load_succeeds:
  assumes "\<forall>r\<in>set raw. join_date r \<noteq> None \<longrightarrow> dates_parse r"
  shows "\<exists>t. serving_load raw = Inr t \<and> length t = length (filter (\<lambda>r. join_date r \<noteq> None) raw)"
proof -
  obtain t where t: "serving_load raw = Inr t"
    using assms serving_load_Inr_iff by blast
  then show ?thesis using serving_load_Inr [OF t] by simp
qed

theorem serving_load_succeeds_witness:
  "\<exists>t. serving_load sample_raw = Inr t \<and>
       length t = length (filter (\<lambda>r. join_date r \<noteq> None) sample_raw)"
proof -
  have "\<forall>r\<in>set sample_raw. join_date r \<noteq> None \<longrightarrow> dates_parse r"
    by code_simp
  then show ?thesis by (rule serving_load_succeeds)
qed

text \<open>C16. A row that has a join date but a join or last-visit date that
  chrono's date parser does not read makes the strict cast raise: the whole
  load fails, naming a column and a value that does not parse (the spec's lenient reading, where
  such a cell becomes null, is the cleaning pipeline's, not this one's).\<close>

theorem serving_load_rejects_bad_date:
  assumes "r \<in> set raw" and "join_date r \<noteq> None" and "\<not> dates_parse r"
  shows "\<exists>c v. serving_load raw = Inl (Cast_Error c v) \<and> naive_date_from_str v = None"
proof -
  have "\<not> (\<exists>t. serving_load raw = Inr t)"
    using assms serving_load_Inr_iff by blast
  then obtain e where e: "serving_load raw = Inl e"
    by (cases "serving_load raw") auto
  obtain c v where "e = Cast_Error c v" by (cases e)
  with e show ?thesis using serving_load_Inl by blast
qed

theorem serving_load_rejects_bad_date_witness:
  "\<exists>c v. serving_load sample_raw_bad = Inl (Cast_Error c v) \<and> naive_date_from_str v = None"
proof -
  let ?r = "raw_member 5 (Some ''Di'') (Some 33) (Some ''15/01/2023'') None"
  have h1: "?r \<in> set sample_raw_bad" by (simp add: sample_raw_bad_def)
  have h2: "join_date ?r \<noteq> None" by (simp add: raw_member_def)
  have h3: "\<not> dates_parse ?r" by code_simp
  show ?thesis using serving_load_rejects_bad_date [OF h1 h2 h3] .
qed

text \<open>C17. Mean imputation: each kept row's age is its own age if present,
  otherwise the mean of all present ages of the raw table (rows later dropped
  for a missing join date included); when some raw row has an age, no kept
  row is left without one.\<close>

theorem serving_load_imputes_age:
  assumes "serving_load raw = Inr t"
  shows "map age t = map (\<lambda>r. fill_null (col_mean age raw) (age r)) (filter (\<lambda>r. join_date r \<noteq> None) raw) \<and>
         ((\<exists>r\<in>set raw. age r \<noteq> None) \<longrightarrow> (\<forall>r\<in>set t. age r \<noteq> None))"
proof
  show "map age t = map (\<lambda>r. fill_null (col_mean age raw) (age r)) (filter (\<lambda>r. join_date r \<noteq> None) raw)"
    using serving_load_Inr [OF assms] by simp
  show "(\<exists>r\<in>set raw. age r \<noteq> None) \<longrightarrow> (\<forall>r\<in>set t. age r \<noteq> None)"
  proof
    assume "\<exists>r\<in>set raw. age r \<noteq> None"
    then have "col_mean age raw \<noteq> None" by (simp only: col_mean_Some_iff)
    then show "\<forall>r\<in>set t. age r \<noteq> None"
      using serving_load_Inr [OF assms] by (auto simp: fill_null_def split: option.splits)
  qed
qed

theorem serving_load_imputes_age_witness:
  "map age (projr (serving_load sample_raw)) = [Some 20, Some 40, Some 60]"
proof -
  have "map age (projr (serving_load sample_raw)) =
        map (\<lambda>r. fill_null (col_mean age sample_raw) (age r)) (filter (\<lambda>r. join_date r \<noteq> None) sample_raw)"
    using serving_load_imputes_age [OF sample_raw_loads] sample_raw_loads by simp
  also have "\<dots> = [Some 20, Some 40, Some 60]"
    by code_simp
  finally show ?thesis .
qed

text \<open>The imputed mean lies between the smallest and the largest value
  present in the column.\<close>

theorem col_mean_bounds:
  "col_mean f rs = Some m \<Longrightarrow>
   Min (set (List.map_filter f rs)) \<le> m \<and> m \<le> Max (set (List.map_filter f rs))"
  by (auto simp: col_mean_def Let_def split: if_splits dest: mean_bounds)

theorem col_mean_bounds_witness:
  "col_mean age sample_raw = Some 40 \<and>
   Min (set (List.map_filter age sample_raw)) \<le> 40 \<and> 40 \<le> Max (set (List.map_filter age sample_raw))"
proof -
  have h: "col_mean age sample_raw = Some 40" by code_simp
  show ?thesis using h col_mean_bounds [OF h] by simp
qed

text \<open>Every kept row has a name: a missing one becomes
  \<^verbatim>\<open>'Test Name'\<close>, a present one is unchanged.\<close>

theorem serving_load_fills_name:
  "serving_load raw = Inr t \<Longrightarrow>
   map name t = map (\<lambda>r. Some (case name r of None \<Rightarrow> ''Test Name'' | Some n \<Rightarrow> n))
                    (filter (\<lambda>r. join_date r \<noteq> None) raw)"
  by (drule serving_load_Inr)
     (simp add: fill_null_def serving_name_placeholder_def split: option.split)

theorem serving_load_fills_name_witness:
  "map name (projr (serving_load sample_raw)) = [Some ''Ann'', Some ''Test Name'', Some ''Cy'']"
proof -
  have "map name (projr (serving_load sample_raw)) =
        map (\<lambda>r. Some (case name r of None \<Rightarrow> ''Test Name'' | Some n \<Rightarrow> n))
            (filter (\<lambda>r. join_date r \<noteq> None) sample_raw)"
    using serving_load_fills_name [OF sample_raw_loads] sample_raw_loads by simp
  also have "\<dots> = [Some ''Ann'', Some ''Test Name'', Some ''Cy'']"
    by (simp add: sample_raw_def raw_member_def)
  finally show ?thesis .
qed

end
