(* ===== verification/Cleaning.thy ===== *)
theory Cleaning
  imports Serving "HOL-Library.List_Lexorder" "HOL-Library.Char_ord"
begin

text \<open>
  The cleaning and reporting script \<^verbatim>\<open>src/analytics/data_cleaning.py\<close>, a
  batch run over the same CSV as the API but with its own cleaning policy.
  \<^item> \<open>dropna_member_age\<close> (line 12) keeps the rows that have both a member
    id and an age; \<open>fillna_name\<close> (line 15) fills a missing name with
    \<^verbatim>\<open>'Unknown'\<close>; \<open>parse_date_columns\<close> (lines 18--19) reads both date
    columns with \<^verbatim>\<open>errors='coerce'\<close> (\<open>to_datetime_coerce\<close> of
    \<open>Dates\<close>), so that a bad date, or one outside pandas' nanosecond range,
    becomes null;
    \<open>clean_members\<close> composes the three.
  \<^item> \<open>value_counts\<close> and \<open>consistency_report\<close> (lines 23--26) are the
    frequency counts printed for every text column.
  \<^item> The two derived columns (lines 29 and 34) extend the row record:
    \<open>cleaned_row\<close>. \<open>membership_period\<close> is the difference of the two dates
    in days; \<open>days_since_visit now\<close> is \<^verbatim>\<open>(now - Last_Visit_Date).dt.days\<close>
    for the time \<open>now\<close> (seconds since the epoch) at which the script runs: a
    timedelta's \<^verbatim>\<open>days\<close> is the floor of its length in days.
  The data the charts are drawn from is in \<open>Charts\<close>.
\<close>

record cleaned_row = "day member_row" +
  membership_period_days :: "int option"
  days_since_last_visit :: "int option"

definition cleaning_name_placeholder :: string where
  "cleaning_name_placeholder = ''Unknown''"

definition dropna_member_age :: "raw_row list \<Rightarrow> raw_row list" where
  "dropna_member_age df = filter (\<lambda>r. member_id r \<noteq> None \<and> age r \<noteq> None) df"

definition fillna_name :: "raw_row list \<Rightarrow> raw_row list" where
  "fillna_name df = map (\<lambda>r. r\<lparr>name := fill_null (Some cleaning_name_placeholder) (name r)\<rparr>) df"

definition parse_date_columns :: "raw_row list \<Rightarrow> row list" where
  "parse_date_columns df =
     map (\<lambda>r. with_dates r (to_datetime_coerce (join_date r)) (to_datetime_coerce (last_visit_date r))) df"

definition clean_members :: "raw_row list \<Rightarrow> row list" where
  "clean_members raw = parse_date_columns (fillna_name (dropna_member_age raw))"

definition value_counts :: "('r \<Rightarrow> string option) \<Rightarrow> 'r list \<Rightarrow> (string \<times> nat) list" where
  "value_counts f rs =
     (let vs = List.map_filter f rs in
      sort_key (\<lambda>p. - int (snd p)) (map (\<lambda>v. (v, count_list vs v)) (remdups vs)))"

definition object_columns :: "(string \<times> (row \<Rightarrow> string option)) list" where
  "object_columns =
     [(''Name'', name), (''Gender'', gender), (''Address'', address),
      (''Phone_Number'', phone_number), (''Membership_Type'', membership_type),
      (''Favorite_Exercise'', favorite_exercise), (''Churn'', churn)]"

definition consistency_report :: "row list \<Rightarrow> (string \<times> (string \<times> nat) list) list" where
  "consistency_report rows = map (\<lambda>(c, f). (c, value_counts f rows)) object_columns"

definition membership_period :: "row \<Rightarrow> int option" where
  "membership_period r =
     (case (last_visit_date r, join_date r) of (Some l, Some j) \<Rightarrow> Some (l - j) | _ \<Rightarrow> None)"

definition days_since_visit :: "timestamp \<Rightarrow> row \<Rightarrow> int option" where
  "days_since_visit now r =
     (case last_visit_date r of
        None \<Rightarrow> None
      | Some l \<Rightarrow> Some ((now - l * seconds_per_day) div seconds_per_day))"

definition with_derived :: "timestamp \<Rightarrow> row \<Rightarrow> cleaned_row" where
  "with_derived now r =
     member_row.extend r (cleaned_row.fields (membership_period r) (days_since_visit now r))"

definition data_cleaning :: "timestamp \<Rightarrow> raw_row list \<Rightarrow> cleaned_row list" where
  "data_cleaning now raw = map (with_derived now) (clean_members raw)"

definition sample_cleaning_raw :: "raw_row list" where
  "sample_cleaning_raw =
     [raw_member 1 (Some ''Ann'') (Some 20) (Some ''2023-01-15'') (Some ''2024-03-01''),
      raw_member 2 None (Some 35) (Some ''2022-06-30'') (Some ''not a date''),
      (raw_member 3 (Some ''Bo'') (Some 40) None (Some ''2024-01-01''))\<lparr>churn := Some ''Yes''\<rparr>,
      raw_member 4 (Some ''Cy'') None (Some ''2021-11-02'') (Some ''2023-12-24''),
      (raw_member 5 (Some ''Di'') (Some 28) (Some ''2020-02-29'') (Some ''2024-02-29''))
        \<lparr>membership_type := Some ''Yearly''\<rparr>]"
  \<comment> \<open>row 2 has no name and a bad date; row 3 no join date; row 4 no age\<close>

lemma clean_members_eq:
  "clean_members raw =
     map (\<lambda>r. with_dates (r\<lparr>name := fill_null (Some cleaning_name_placeholder) (name r)\<rparr>)
                 (to_datetime_coerce (join_date r)) (to_datetime_coerce (last_visit_date r)))
         (filter (\<lambda>r. member_id r \<noteq> None \<and> age r \<noteq> None) raw)"
  by (simp add: clean_members_def parse_date_columns_def fillna_name_def dropna_member_age_def)

lemma with_derived_fields [simp]:
  "member_id (with_derived now r) = member_id r" "age (with_derived now r) = age r"
  "name (with_derived now r) = name r" "churn (with_derived now r) = churn r"
  "membership_type (with_derived now r) = membership_type r"
  "join_date (with_derived now r) = join_date r"
  "last_visit_date (with_derived now r) = last_visit_date r"
  "membership_period_days (with_derived now r) = membership_period r"
  "days_since_last_visit (with_derived now r) = days_since_visit now r"
  by (simp_all add: with_derived_def member_row.defs cleaned_row.defs)

lemma data_cleaning_eq:
  "data_cleaning now raw = map (with_derived now) (clean_members raw)"
  by (simp add: data_cleaning_def)


lemma value_counts_mset:
  "mset (value_counts f rs) =
     mset (map (\<lambda>v. (v, count_list (List.map_filter f rs) v)) (remdups (List.map_filter f rs)))"
  by (simp add: value_counts_def Let_def)

lemma value_counts_fst:
  "mset (map fst (value_counts f rs)) = mset (remdups (List.map_filter f rs))"
proof -
  have "mset (map fst (value_counts f rs)) = image_mset fst (mset (value_counts f rs))"
    by (simp only: mset_map)
  also have "\<dots> = mset (remdups (List.map_filter f rs))"
    by (simp add: value_counts_mset comp_def flip: mset_map)
  finally show ?thesis .
qed

subsection \<open>Properties of the cleaning script\<close>

text \<open>C24. The cleaned rows are exactly the raw rows that have both a member id
  and an age, in order: no row without one of them survives.\<close>

theorem cleaning_keeps_id_and_age:
  "map member_id (data_cleaning now raw) =
     map member_id (filter (\<lambda>r. member_id r \<noteq> None \<and> age r \<noteq> None) raw) \<and>
   (\<forall>r\<in>set (data_cleaning now raw). member_id r \<noteq> None \<and> age r \<noteq> None)"
  by (auto simp: data_cleaning_eq clean_members_eq)

theorem cleaning_keeps_id_and_age_witness:
  "map member_id (data_cleaning 1730000000 sample_cleaning_raw) = [Some 1, Some 2, Some 3, Some 5] \<and>
   list_all (\<lambda>r. member_id r \<noteq> None \<and> age r \<noteq> None) (data_cleaning 1730000000 sample_cleaning_raw)"
proof -
  have "map member_id (filter (\<lambda>r. member_id r \<noteq> None \<and> age r \<noteq> None) sample_cleaning_raw) =
        [Some 1, Some 2, Some 3, Some 5]"
    by code_simp
  then show ?thesis
    using cleaning_keeps_id_and_age [of 1730000000 sample_cleaning_raw] by (simp add: list_all_iff)
qed

text \<open>C25. A missing name becomes \<^verbatim>\<open>'Unknown'\<close>, a present one is kept
  (the API uses \<^verbatim>\<open>'Test Name'\<close> instead, lemma
  \<open>serving_load_fills_name\<close> of \<open>Serving\<close>).\<close>

theorem cleaning_fills_name:
  "map name (data_cleaning now raw) =
     map (\<lambda>r. Some (case name r of None \<Rightarrow> ''Unknown'' | Some n \<Rightarrow> n))
         (filter (\<lambda>r. member_id r \<noteq> None \<and> age r \<noteq> None) raw)"
  by (simp add: data_cleaning_eq clean_members_eq fill_null_def cleaning_name_placeholder_def
           split: option.split)

theorem cleaning_fills_name_witness:
  "map name (data_cleaning 1730000000 sample_cleaning_raw) =
     [Some ''Ann'', Some ''Unknown'', Some ''Bo'', Some ''Di'']"
proof -
  have "map (\<lambda>r. Some (case name r of None \<Rightarrow> ''Unknown'' | Some n \<Rightarrow> n))
          (filter (\<lambda>r. member_id r \<noteq> None \<and> age r \<noteq> None) sample_cleaning_raw) =
        [Some ''Ann'', Some ''Unknown'', Some ''Bo'', Some ''Di'']"
    by code_simp
  then show ?thesis using cleaning_fills_name [of 1730000000 sample_cleaning_raw] by simp
qed





text \<open>The printed frequency counts of a column list every non-null value
  once, in non-increasing order of count, and the counts add up to the number
  of non-null cells.\<close>

theorem value_counts_total:
  "sum_list (map snd (value_counts f rs)) = length (List.map_filter f rs) \<and>
   distinct (map fst (value_counts f rs)) \<and>
   sorted_wrt (\<lambda>a b. snd b \<le> snd a) (value_counts f rs)"
proof (intro conjI)
  let ?vs = "List.map_filter f rs"
  have "mset (map snd (value_counts f rs)) = image_mset snd (mset (value_counts f rs))"
    by (simp only: mset_map)
  also have "\<dots> = mset (map (count_list ?vs) (remdups ?vs))"
    by (simp add: value_counts_mset comp_def flip: mset_map)
  finally have "mset (map snd (value_counts f rs)) = mset (map (count_list ?vs) (remdups ?vs))" .
  then have "sum_list (map snd (value_counts f rs)) = sum_list (map (count_list ?vs) (remdups ?vs))"
    by (metis sum_mset_sum_list)
  then show "sum_list (map snd (value_counts f rs)) = length ?vs"
    by (simp add: sum_count_remdups)
  show "distinct (map fst (value_counts f rs))"
    using mset_eq_imp_distinct_iff [OF value_counts_fst [of f rs]] by simp
  show "sorted_wrt (\<lambda>a b. snd b \<le> snd a) (value_counts f rs)"
    using sorted_desc_sort_key [of "\<lambda>p. int (snd p)"] by (simp add: value_counts_def Let_def)
qed

theorem value_counts_total_witness:
  "value_counts membership_type (clean_members sample_cleaning_raw) = [(''Monthly'', 3), (''Yearly'', 1)] \<and>
   sum_list (map snd (value_counts membership_type (clean_members sample_cleaning_raw))) =
     length (List.map_filter membership_type (clean_members sample_cleaning_raw))"
proof -
  have "value_counts membership_type (clean_members sample_cleaning_raw) = [(''Monthly'', 3), (''Yearly'', 1)]"
    by code_simp
  then show ?thesis using value_counts_total [of membership_type "clean_members sample_cleaning_raw"]
    by simp
qed

end
