(* ===== verification/Charts.thy ===== *)
theory Charts
  imports Cleaning
begin

text \<open>
  The data behind the four charts of \<^verbatim>\<open>src/analytics/data_cleaning.py\<close>,
  drawn from the cleaned rows of \<open>Cleaning\<close>:
  \<^item> \<open>age_histogram\<close> (line 41) is what \<^verbatim>\<open>plt.hist(..., bins=20)\<close>
    draws, numpy's histogram: the range is the least and greatest age (widened
    by one half on each side when they are equal), \<open>hist_bin\<close> is the bin index
    \<open>\<lfloor>(v - lo) * n / (hi - lo)\<rfloor>\<close> with the maximum put in the last bin;
  \<^item> \<open>membership_pie\<close> (lines 48--50) pairs the three fixed labels with the
    value counts of the membership type, by position (matplotlib raises when
    the lengths differ);
  \<^item> \<open>churned_df\<close>/\<open>active_df\<close> and \<open>workout_comparison\<close> (lines 56--64);
  \<^item> \<open>gender_churn_table\<close> (line 76), the \<^verbatim>\<open>groupby(['Gender','Churn'])\<close>
    counts unstacked with 0 for missing pairs, keys in sorted order.
  Drawing and saving the images is not modelled.
\<close>

datatype chart_error = Label_Length_Mismatch nat nat

definition pie_labels :: "string list" where
  "pie_labels = [''Quarterly'', ''Monthly'', ''Yearly'']"

definition membership_pie :: "cleaned_row list \<Rightarrow> chart_error + (string \<times> nat) list" where
  "membership_pie rows =
     (let counts = map snd (value_counts membership_type rows) in
      if length counts = length pie_labels then Inr (zip pie_labels counts)
      else Inl (Label_Length_Mismatch (length counts) (length pie_labels)))"

definition churned_df :: "cleaned_row list \<Rightarrow> cleaned_row list" where
  "churned_df rows = filter (\<lambda>r. churn r = Some ''Yes'') rows"

definition active_df :: "cleaned_row list \<Rightarrow> cleaned_row list" where
  "active_df rows = filter (\<lambda>r. churn r = Some ''No'') rows"

definition avg_workout :: "cleaned_row list \<Rightarrow> real option" where
  "avg_workout rows = col_mean (\<lambda>r. map_option real_of_int (avg_workout_duration_min r)) rows"

definition workout_comparison :: "cleaned_row list \<Rightarrow> (string \<times> real option) list" where
  "workout_comparison rows =
     [(''Churned'', avg_workout (churned_df rows)), (''Active'', avg_workout (active_df rows))]"

definition gender_churn_table :: "cleaned_row list \<Rightarrow> (string \<times> (string \<times> nat) list) list" where
  "gender_churn_table rows =
     (let keyed = filter (\<lambda>r. gender r \<noteq> None \<and> churn r \<noteq> None) rows;
          gs = sort (remdups (List.map_filter gender keyed));
          cs = sort (remdups (List.map_filter churn keyed)) in
      map (\<lambda>g. (g, map (\<lambda>c. (c, length (filter (\<lambda>r. gender r = Some g \<and> churn r = Some c) keyed))) cs))
          gs)"

definition hist_bins :: nat where
  "hist_bins = 20"
  \<comment> \<open>\<^verbatim>\<open>plt.hist(df_new['Age'], bins=20)\<close>\<close>

definition hist_range :: "real list \<Rightarrow> real \<times> real" where
  "hist_range xs =
     (if xs = [] then (0, 1)
      else (let lo = Min (set xs); hi = Max (set xs) in
            if lo = hi then (lo - 1 / 2, hi + 1 / 2) else (lo, hi)))"

definition hist_bin :: "nat \<Rightarrow> real \<times> real \<Rightarrow> real \<Rightarrow> nat" where
  "hist_bin n rng v =
     (let (lo, hi) = rng; k = nat \<lfloor>(v - lo) * real n / (hi - lo)\<rfloor> in
      if k = n then n - 1 else k)"

definition histogram :: "nat \<Rightarrow> real list \<Rightarrow> nat list" where
  "histogram n xs =
     (let rng = hist_range xs;
          kept = filter (\<lambda>v. fst rng \<le> v \<and> v \<le> snd rng) xs in
      map (\<lambda>k. count_list (map (hist_bin n rng) kept) k) [0..<n])"

definition age_histogram :: "cleaned_row list \<Rightarrow> nat list" where
  "age_histogram rows = histogram hist_bins (List.map_filter age rows)"

definition sample_pie_raw :: "raw_row list" where
  "sample_pie_raw =
     map (\<lambda>(i, mt). (raw_member i (Some ''M'') (Some 30) (Some ''2023-01-01'') (Some ''2024-01-01''))
                      \<lparr>membership_type := Some mt\<rparr>)
         [(1, ''Monthly''), (2, ''Yearly''), (3, ''Monthly''), (4, ''Quarterly''),
          (5, ''Monthly''), (6, ''Yearly'')]"
  \<comment> \<open>three Monthly, two Yearly, one Quarterly member\<close>

lemma hist_range_covers:
  assumes "v \<in> set xs"
  shows "fst (hist_range xs) \<le> v \<and> v \<le> snd (hist_range xs)"
proof -
  have lo: "Min (set xs) \<le> v" and hi: "v \<le> Max (set xs)" and ne: "xs \<noteq> []"
    using assms by auto
  show ?thesis
  proof (cases "Min (set xs) = Max (set xs)")
    case True
    then have "v = Max (set xs)" using lo hi by linarith
    then show ?thesis using True ne by (simp add: hist_range_def Let_def)
  next
    case False
    then show ?thesis using lo hi ne by (simp add: hist_range_def)
  qed
qed

lemma hist_range_lt: "fst (hist_range xs) < snd (hist_range xs)"
proof (cases "xs = []")
  case False
  then have "Min (set xs) \<le> Max (set xs)" by simp
  then show ?thesis by (auto simp: hist_range_def Let_def)
qed (simp add: hist_range_def)

lemma hist_bin_less:
  assumes "0 < n" and "lo < hi" and "lo \<le> v" and "v \<le> hi"
  shows "hist_bin n (lo, hi) v < n"
proof -
  have "(v - lo) * real n / (hi - lo) \<le> real n"
    using assms by (simp add: divide_le_eq mult_left_mono)
  then have "nat \<lfloor>(v - lo) * real n / (hi - lo)\<rfloor> \<le> n"
    by (metis floor_mono floor_of_nat nat_mono nat_int)
  then show ?thesis using assms(1) by (auto simp: hist_bin_def Let_def)
qed

lemma histogram_total:
  assumes "0 < n"
  shows "sum_list (histogram n xs) = length xs \<and> length (histogram n xs) = n"
proof -
  let ?rng = "hist_range xs"
  have kept: "filter (\<lambda>v. fst ?rng \<le> v \<and> v \<le> snd ?rng) xs = xs"
    using hist_range_covers by (simp add: filter_id_conv)
  have "\<forall>y\<in>set (map (hist_bin n ?rng) xs). y < n"
    using hist_bin_less [OF assms] hist_range_lt hist_range_covers
    by (metis (no_types, lifting) imageE list.set_map prod.collapse)
  then show ?thesis by (simp add: histogram_def Let_def kept comp_def sum_count_list_upt)
qed

text \<open>The churned and active groups of the workout chart split exactly
  the rows whose churn is \<^verbatim>\<open>'Yes'\<close> or \<^verbatim>\<open>'No'\<close>; a row with another or
  a missing churn value is in neither.\<close>

theorem churn_split_partition:
  "mset (churned_df rows) + mset (active_df rows) =
   mset (filter (\<lambda>r. churn r = Some ''Yes'' \<or> churn r = Some ''No'') rows)"
  by (induction rows) (auto simp: churned_df_def active_df_def)

theorem churn_split_partition_witness:
  "mset (churned_df (data_cleaning 1730000000 sample_cleaning_raw)) +
   mset (active_df (data_cleaning 1730000000 sample_cleaning_raw)) =
   mset (data_cleaning 1730000000 sample_cleaning_raw)"
proof -
  have "filter (\<lambda>r. churn r = Some ''Yes'' \<or> churn r = Some ''No'') (data_cleaning 1730000000 sample_cleaning_raw) =
        data_cleaning 1730000000 sample_cleaning_raw"
    by code_simp
  then show ?thesis using churn_split_partition [of "data_cleaning 1730000000 sample_cleaning_raw"]
    by simp
qed

text \<open>The pie chart needs exactly three membership types: with any other
  number of distinct types, pairing them with the three fixed labels fails.\<close>

theorem membership_pie_needs_three:
  "length (remdups (List.map_filter membership_type rows)) \<noteq> 3 \<Longrightarrow>
   membership_pie rows = Inl (Label_Length_Mismatch (length (remdups (List.map_filter membership_type rows))) 3)"
proof -
  have "length (value_counts membership_type rows) = length (remdups (List.map_filter membership_type rows))"
    using value_counts_fst [of membership_type rows] by (metis length_map size_mset)
  then show "length (remdups (List.map_filter membership_type rows)) \<noteq> 3 \<Longrightarrow> ?thesis"
    by (simp add: membership_pie_def pie_labels_def)
qed

theorem membership_pie_needs_three_witness:
  "membership_pie (data_cleaning 1730000000 sample_cleaning_raw) = Inl (Label_Length_Mismatch 2 3)"
proof -
  have h: "length (remdups (List.map_filter membership_type (data_cleaning 1730000000 sample_cleaning_raw))) = 2"
    by code_simp
  show ?thesis using membership_pie_needs_three [of "data_cleaning 1730000000 sample_cleaning_raw"] h
    by simp
qed

text \<open>C28. The pie labels follow the ranking, not the categories: whatever
  the cleaned rows, a drawn pie has the wedges Quarterly, Monthly, Yearly in
  that order, their sizes are the counts of the membership types in
  non-increasing order, and they are exactly those counts. So the wedge
  labelled Quarterly always shows the count of the most frequent type,
  whichever type that is.\<close>

theorem membership_pie_labels_by_rank:
  assumes "membership_pie rows = Inr ws"
  shows "map fst ws = [''Quarterly'', ''Monthly'', ''Yearly''] \<and>
         sorted_wrt (\<lambda>a b. snd b \<le> snd a) ws \<and>
         mset (map snd ws) =
           mset (map (\<lambda>v. count_list (List.map_filter membership_type rows) v)
                     (remdups (List.map_filter membership_type rows)))"
proof -
  let ?vc = "value_counts membership_type rows"
  have len: "length (map snd ?vc) = 3" and ws: "ws = zip pie_labels (map snd ?vc)"
    using assms by (simp_all add: membership_pie_def pie_labels_def Let_def split: if_splits)
  have fst: "map fst ws = pie_labels" and snd: "map snd ws = map snd ?vc"
    using len by (simp_all add: ws pie_labels_def)
  have "sorted_wrt (\<lambda>a b. b \<le> a) (map snd ?vc)"
    using value_counts_total [of membership_type rows] by (simp add: sorted_wrt_map)
  then have "sorted_wrt (\<lambda>a b. b \<le> a) (map snd ws)"
    using snd by simp
  then have "sorted_wrt (\<lambda>a b. snd b \<le> snd a) ws"
    by (simp add: sorted_wrt_map)
  moreover have "mset (map snd ?vc) =
      mset (map (\<lambda>v. count_list (List.map_filter membership_type rows) v)
                (remdups (List.map_filter membership_type rows)))"
  proof -
    have "mset (map snd ?vc) = image_mset snd (mset ?vc)" by simp
    also have "\<dots> = image_mset snd (mset (map (\<lambda>v. (v, count_list (List.map_filter membership_type rows) v))
                                         (remdups (List.map_filter membership_type rows))))"
      by (simp only: value_counts_mset)
    also have "\<dots> = mset (map (\<lambda>v. count_list (List.map_filter membership_type rows) v)
                          (remdups (List.map_filter membership_type rows)))"
      by (simp only: mset_map [symmetric] map_map comp_def snd_conv)
    finally show ?thesis .
  qed
  ultimately show ?thesis using fst snd by (simp add: pie_labels_def)
qed

theorem membership_pie_labels_by_rank_witness:
  "membership_pie (data_cleaning 0 sample_pie_raw) =
     Inr [(''Quarterly'', 3), (''Monthly'', 2), (''Yearly'', 1)] \<and>
   map fst [(''Quarterly'', 3::nat), (''Monthly'', 2), (''Yearly'', 1)] = [''Quarterly'', ''Monthly'', ''Yearly''] \<and>
   length (filter (\<lambda>r. membership_type r = Some ''Quarterly'') (data_cleaning 0 sample_pie_raw)) = 1"
proof -
  have h: "membership_pie (data_cleaning 0 sample_pie_raw) =
             Inr [(''Quarterly'', 3), (''Monthly'', 2), (''Yearly'', 1)]"
    by code_simp
  have q: "length (filter (\<lambda>r. membership_type r = Some ''Quarterly'') (data_cleaning 0 sample_pie_raw)) = 1"
    by code_simp
  show ?thesis using membership_pie_labels_by_rank [OF h] h q by simp
qed

text \<open>The stacked gender/churn bar chart counts every member with a gender
  and a churn value exactly once: the cells of the crosstab add up to the number
  of such rows (rows with a null key are left out, as \<^verbatim>\<open>groupby\<close> does).\<close>

theorem gender_churn_totals:
  "(\<Sum>(g, cs)\<leftarrow>gender_churn_table rows. \<Sum>(c, n)\<leftarrow>cs. n) =
   length (filter (\<lambda>r. gender r \<noteq> None \<and> churn r \<noteq> None) rows)"
proof -
  define keyed where "keyed = filter (\<lambda>r. gender r \<noteq> None \<and> churn r \<noteq> None) rows"
  define gs where "gs = sort (remdups (List.map_filter gender keyed))"
  define cs where "cs = sort (remdups (List.map_filter churn keyed))"
  have tbl: "gender_churn_table rows =
     map (\<lambda>g. (g, map (\<lambda>c. (c, length (filter (\<lambda>r. gender r = Some g \<and> churn r = Some c) keyed))) cs)) gs"
    by (simp add: gender_churn_table_def keyed_def gs_def cs_def Let_def)
  have row: "(\<Sum>c\<leftarrow>cs. length (filter (\<lambda>r. gender r = Some g \<and> churn r = Some c) keyed))
             = length (filter (\<lambda>r. gender r = Some g) keyed)" for g
  proof -
    have "\<forall>r\<in>set keyed. gender r = Some g \<longrightarrow> (\<exists>c\<in>set cs. churn r = Some c)"
      by (auto simp: cs_def keyed_def set_map_filter_eq)
    from sum_list_count_partition [OF _ this] show ?thesis
      by (simp add: cs_def conj_commute)
  qed
  have all: "(\<Sum>g\<leftarrow>gs. length (filter (\<lambda>r. gender r = Some g) keyed)) = length keyed"
  proof -
    have "\<forall>r\<in>set keyed. True \<longrightarrow> (\<exists>g\<in>set gs. gender r = Some g)"
      by (auto simp: gs_def keyed_def set_map_filter_eq)
    from sum_list_count_partition [OF _ this] show ?thesis by (simp add: gs_def)
  qed
  have "(\<Sum>(g, cs)\<leftarrow>gender_churn_table rows. \<Sum>(c, n)\<leftarrow>cs. n) =
        (\<Sum>g\<leftarrow>gs. length (filter (\<lambda>r. gender r = Some g) keyed))"
    unfolding tbl by (simp add: comp_def row)
  then show ?thesis using all by (simp only: keyed_def)
qed

text \<open>The age histogram puts a value in the bin numpy's edges assign it:
  with \<open>n\<close> bins of width \<open>(hi - lo) / n\<close> over the range, bin \<open>k\<close> holds
  the values from its lower edge up to, but excluding, the next edge, and the
  last bin also holds the maximum.\<close>

theorem hist_bin_edges:
  assumes "0 < n" and "lo < hi" and "lo \<le> v" and "v \<le> hi"
  shows "hist_bin n (lo, hi) v < n \<and>
         lo + real (hist_bin n (lo, hi) v) * ((hi - lo) / real n) \<le> v \<and>
         (v < lo + real (Suc (hist_bin n (lo, hi) v)) * ((hi - lo) / real n) \<or>
          hist_bin n (lo, hi) v = n - 1 \<and> v = hi)"
proof -
  define t where "t = (v - lo) * real n / (hi - lo)"
  define k where "k = nat \<lfloor>t\<rfloor>"
  have w: "0 < (hi - lo) / real n" using assms by simp
  have t0: "0 \<le> t" and tn: "t \<le> real n"
    using assms by (simp_all add: t_def divide_le_eq mult_left_mono)
  have kt: "real k \<le> t" "t < real k + 1"
    using t0 by (simp_all add: k_def)
  have kn: "k \<le> n" using tn by (simp add: k_def nat_le_iff floor_le_iff)
  have scale: "lo + x * ((hi - lo) / real n) \<le> v \<longleftrightarrow> x \<le> t"
              "v < lo + x * ((hi - lo) / real n) \<longleftrightarrow> t < x" for x
    using assms by (auto simp: t_def field_simps)
  have bin: "hist_bin n (lo, hi) v = (if k = n then n - 1 else k)"
    by (simp add: hist_bin_def k_def t_def)
  show ?thesis
  proof (cases "k = n")
    case True
    then have "t = real n" using kt tn by simp
    then have "v = hi" using assms by (simp add: t_def field_simps)
    then show ?thesis using True assms(1) kt scale bin by (simp add: of_nat_diff)
  next
    case False
    then show ?thesis using kn kt scale bin by simp
  qed
qed

theorem hist_bin_edges_witness:
  "hist_bin 20 (20, 60) 35 = 7 \<and> 20 + real 7 * ((60 - 20) / real (20::nat)) \<le> (35::real) \<and>
   (35::real) < 20 + real (Suc 7) * ((60 - 20) / real (20::nat))"
proof -
  have b: "hist_bin 20 (20, 60) 35 = 7" by code_simp
  show ?thesis using hist_bin_edges [of 20 20 60 35] b by simp
qed

text \<open>C29. The age histogram of the cleaned data has twenty bars that count
  every cleaned member exactly once: no member lacks an age and no age falls
  outside the bins.\<close>

theorem age_histogram_total:
  "sum_list (age_histogram (data_cleaning now raw)) = length (data_cleaning now raw) \<and>
   length (age_histogram (data_cleaning now raw)) = 20"
proof -
  have "length (List.map_filter age (data_cleaning now raw)) = length (data_cleaning now raw)"
    by (rule length_map_filter_all) (auto simp: data_cleaning_eq clean_members_eq)
  then show ?thesis using histogram_total [of hist_bins] by (simp add: age_histogram_def hist_bins_def)
qed

end
