(* ===== verification/Store.thy ===== *)
theory Store
  imports Member
begin

text \<open>
  The embedded analytical store (the DuckDB file \<^verbatim>\<open>data/gym_members_dataset.db\<close>
  of \<^verbatim>\<open>src/app/main.py\<close>). Its state is the record \<open>store\<close>: the tables of
  the database file, by name, and the number of connections that the program has
  opened and not closed. \<open>connect\<close> and \<open>close_conn\<close> are the
  \<^verbatim>\<open>connect(database=...)\<close> and \<^verbatim>\<open>cursor.close()\<close> calls;
  \<open>create_table\<close> is the function of that name (lines 48--61), whose
  \<^verbatim>\<open>CREATE OR REPLACE TABLE\<close> statement is \<open>create_or_replace\<close>; \<open>scan\<close> is
  the \<^verbatim>\<open>FROM gym_membership_data\<close> of every query, which fails with a
  catalog error when the table does not exist. \<open>limit_offset\<close> is the
  \<^verbatim>\<open>LIMIT ? OFFSET ?\<close> of the paginated query (lines 133--139): DuckDB
  rejects a limit or an offset above \<open>2^62\<close> with a binder error (and a
  Python int past BIGINT cannot even be bound), so only bounded values give
  the rows in storage order; \<open>fetchall\<close> then converts the rows to Python
  tuples, which fails on a date outside Python's range; \<open>fetch_page\<close> is the
  two together.
\<close>

record store =
  tables :: "string \<rightharpoonup> table"
  open_conns :: nat

datatype sql_error = Catalog_Error string | Binder_Error string | Fetch_Error string

definition gym_table :: string where
  "gym_table = ''gym_membership_data''"

definition connect :: "store \<Rightarrow> store" where
  "connect st = st\<lparr>open_conns := Suc (open_conns st)\<rparr>"

definition close_conn :: "store \<Rightarrow> store" where
  "close_conn st = st\<lparr>open_conns := open_conns st - 1\<rparr>"

definition create_or_replace :: "string \<Rightarrow> table \<Rightarrow> store \<Rightarrow> store" where
  "create_or_replace tn t st = st\<lparr>tables := (tables st)(tn \<mapsto> t)\<rparr>"

definition create_table :: "table \<Rightarrow> store \<Rightarrow> store" where
  "create_table df st = close_conn (create_or_replace gym_table df (connect st))"

definition scan :: "store \<Rightarrow> string \<Rightarrow> sql_error + table" where
  "scan st tn = (case tables st tn of None \<Rightarrow> Inl (Catalog_Error tn) | Some t \<Rightarrow> Inr t)"

definition max_limit_offset :: int where
  "max_limit_offset = 2 ^ 62"
  \<comment> \<open>the largest value DuckDB accepts for \<^verbatim>\<open>LIMIT\<close> and \<^verbatim>\<open>OFFSET\<close>\<close>

definition limit_offset :: "int \<Rightarrow> int \<Rightarrow> table \<Rightarrow> sql_error + table" where
  "limit_offset cnt ofs t =
     (if max_limit_offset < cnt \<or> max_limit_offset < ofs
      then Inl (Binder_Error ''Max value for LIMIT/OFFSET is 4611686018427387904'')
      else Inr (slice (nat cnt) (nat ofs) t))"

definition fetchall :: "table \<Rightarrow> sql_error + table" where
  "fetchall rows =
     (if list_all row_dates_in_range rows then Inr rows
      else Inl (Fetch_Error ''ValueError: year is out of range''))"
  \<comment> \<open>\<^verbatim>\<open>fetchall()\<close> builds a Python \<^verbatim>\<open>date\<close> for every date of the result,
      which fails for a year outside 1..9999\<close>

definition fetch_page :: "int \<Rightarrow> int \<Rightarrow> table \<Rightarrow> sql_error + table" where
  "fetch_page cnt ofs t = (case limit_offset cnt ofs t of Inl e \<Rightarrow> Inl e | Inr rows \<Rightarrow> fetchall rows)"
  \<comment> \<open>\<^verbatim>\<open>cursor.execute("... LIMIT ? OFFSET ?", [cnt, ofs]).fetchall()\<close>\<close>

definition sql_failure :: "sql_error \<Rightarrow> api_error" where
  "sql_failure e = (case e of
      Catalog_Error tn \<Rightarrow>
        Internal_Server_Error (''Catalog Error: Table with name '' @ tn @ '' does not exist!'')
    | Binder_Error msg \<Rightarrow> Internal_Server_Error (''Binder Error: '' @ msg)
    | Fetch_Error msg \<Rightarrow> Internal_Server_Error msg)"

lemma tables_connect [simp]: "tables (connect st) = tables st"
  by (simp add: connect_def)

lemma tables_close_conn [simp]: "tables (close_conn st) = tables st"
  by (simp add: close_conn_def)

lemma open_conns_connect [simp]: "open_conns (connect st) = Suc (open_conns st)"
  by (simp add: connect_def)

lemma open_conns_close_conn [simp]: "open_conns (close_conn st) = open_conns st - 1"
  by (simp add: close_conn_def)

lemma close_connect [simp]: "close_conn (connect st) = st"
  by (simp add: connect_def close_conn_def)

lemma scan_Inr_iff [simp]: "scan st tn = Inr t \<longleftrightarrow> tables st tn = Some t"
  by (simp add: scan_def split: option.splits)

lemma scan_Inl_iff: "(\<exists>e. scan st tn = Inl e) \<longleftrightarrow> tables st tn = None"
  by (simp add: scan_def split: option.splits)

lemma limit_offset_in_bounds [simp]:
  "cnt \<le> max_limit_offset \<Longrightarrow> ofs \<le> max_limit_offset \<Longrightarrow>
   limit_offset cnt ofs t = Inr (slice (nat cnt) (nat ofs) t)"
  by (simp add: limit_offset_def)

lemma limit_offset_out_of_bounds:
  "max_limit_offset < ofs \<Longrightarrow> \<exists>msg. limit_offset cnt ofs t = Inl (Binder_Error msg)"
  by (simp add: limit_offset_def)

lemma fetch_page_ok:
  "cnt \<le> max_limit_offset \<Longrightarrow> ofs \<le> max_limit_offset \<Longrightarrow>
   \<forall>r\<in>set (slice (nat cnt) (nat ofs) t). row_dates_in_range r \<Longrightarrow>
   fetch_page cnt ofs t = Inr (slice (nat cnt) (nat ofs) t)"
  by (simp add: fetch_page_def fetchall_def list_all_iff)

lemma fetch_page_date_error:
  "cnt \<le> max_limit_offset \<Longrightarrow> ofs \<le> max_limit_offset \<Longrightarrow>
   r \<in> set (slice (nat cnt) (nat ofs) t) \<Longrightarrow> \<not> row_dates_in_range r \<Longrightarrow>
   \<exists>msg. fetch_page cnt ofs t = Inl (Fetch_Error msg)"
  by (auto simp: fetch_page_def fetchall_def list_all_iff)

lemma fetch_page_offset_error:
  "max_limit_offset < ofs \<Longrightarrow> \<exists>msg. fetch_page cnt ofs t = Inl (Binder_Error msg)"
  by (auto simp: fetch_page_def limit_offset_def)

lemma limit_100_in_bounds: "cnt \<le> 100 \<Longrightarrow> cnt \<le> max_limit_offset"
  by (simp add: max_limit_offset_def)

lemma tables_create_table:
  "tables (create_table df st) = (tables st)(gym_table \<mapsto> df)"
  by (simp add: create_table_def create_or_replace_def)

lemma open_conns_create_table:
  "open_conns (create_table df st) = open_conns st"
  by (simp add: create_table_def create_or_replace_def)

lemma create_table_eq:
  "create_table df st = st\<lparr>tables := (tables st)(gym_table \<mapsto> df)\<rparr>"
  by (simp add: create_table_def create_or_replace_def connect_def close_conn_def)

end
