(* ===== verification/Queries.thy ===== *)
theory Queries
  imports Store
begin

text \<open>
  The three route handlers of \<^verbatim>\<open>src/app/main.py\<close> that query the store. Each
  opens a connection (\<open>connect\<close>), reads the table \<open>gym_membership_data\<close>
  (\<open>scan\<close>), computes its answer and closes the connection, and is modelled
  as a function from the store to the answer (an \<open>api_error\<close> or a value) and
  the store after the call.
  \<^item> \<open>get_churn_data\<close> (lines 68--82): the SQL query is
    \<open>churn_by_membership\<close>: one group per \<^verbatim>\<open>Membership_Type\<close> (NULL is a
    group of its own), the number of its rows whose \<^verbatim>\<open>churn\<close> is
    \<^verbatim>\<open>'Yes'\<close>, ordered by that number, descending.
  \<^item> \<open>get_member_data\<close> (lines 85--105): the query with the bound parameter
    is \<open>exercise_member_count\<close>, the number of distinct non-NULL member ids
    among the rows whose favorite exercise is the parameter.
  \<^item> \<open>get_paginated_date\<close> (lines 108--166), behind FastAPI's validation of
    its query parameters (\<open>validate_page_params\<close>, the \<^verbatim>\<open>ge\<close>/\<^verbatim>\<open>le\<close>
    constraints of lines 110--116, composed in \<open>pagination_endpoint\<close> with
    the defaults 1 and 10): the row count, and the rows of
    \<^verbatim>\<open>LIMIT page_size OFFSET (page - 1) * page_size\<close>, each turned into a
    \<open>MemberData\<close>; \<open>page\<close> has no upper bound, so the offset can exceed
    what DuckDB accepts (\<open>limit_offset\<close> of \<open>Store\<close>).
  The SQL engine's grouping order and the order of rows that tie in
  \<^verbatim>\<open>ORDER BY\<close> are not specified by SQL; the model fixes one (first
  appearance, then a stable sort), and the lemmas about the ordering hold for
  every order SQL allows (\<open>churn_spec\<close>).
\<close>

subsection \<open>Churn counts by membership type\<close>

definition num_churns :: "table \<Rightarrow> string option \<Rightarrow> nat" where
  "num_churns t ty = length (filter (\<lambda>r. membership_type r = ty \<and> churn r = Some ''Yes'') t)"

definition churn_groups :: "table \<Rightarrow> string option list" where
  "churn_groups t = remdups (map membership_type t)"

definition churn_by_membership :: "table \<Rightarrow> (string option \<times> nat) list" where
  "churn_by_membership t =
     sort_key (\<lambda>g. - int (snd g)) (map (\<lambda>ty. (ty, num_churns t ty)) (churn_groups t))"

definition get_churn_data :: "store \<Rightarrow> (api_error + (string option \<times> nat) list) \<times> store" where
  "get_churn_data st =
     (let st1 = connect st in
      case scan st1 gym_table of
        Inl e \<Rightarrow> (Inl (sql_failure e), st1)
      | Inr t \<Rightarrow> (Inr (churn_by_membership t), close_conn st1))"

definition churn_spec :: "table \<Rightarrow> (string option \<times> nat) list \<Rightarrow> bool" where
  "churn_spec t out \<longleftrightarrow>
     mset out = mset (map (\<lambda>ty. (ty, length (filter (\<lambda>r. membership_type r = ty \<and>
                                         churn r = Some ''Yes'') t)))
                          (remdups (map membership_type t))) \<and>
     sorted_wrt (\<lambda>a b. snd b \<le> snd a) out"
  \<comment> \<open>every answer SQL allows: the groups with their counts, in any order
      whose counts do not increase\<close>

subsection \<open>Members per favorite exercise\<close>

definition default_exercise :: string where
  "default_exercise = ''Pull-ups''"

definition exercise_member_count :: "table \<Rightarrow> string \<Rightarrow> (string \<times> nat) list" where
  "exercise_member_count t ex =
     (let ms = filter (\<lambda>r. favorite_exercise r = Some ex) t in
      if ms = [] then [] else [(ex, length (remdups (List.map_filter member_id ms)))])"

definition get_member_data :: "store \<Rightarrow> string option \<Rightarrow> (api_error + (string \<times> nat) list) \<times> store" where
  "get_member_data st exercise =
     (let ex = (case exercise of None \<Rightarrow> default_exercise | Some e \<Rightarrow> e);
          st1 = connect st in
      case scan st1 gym_table of
        Inl e \<Rightarrow> (Inl (sql_failure e), st1)
      | Inr t \<Rightarrow> (Inr (exercise_member_count t ex), close_conn st1))"

subsection \<open>Pagination\<close>

definition validate_page_params :: "int \<Rightarrow> int \<Rightarrow> string list" where
  "validate_page_params pg ps =
     (if 1 \<le> pg then [] else [''page'']) @
     (if 1 \<le> ps \<and> ps \<le> 100 then [] else [''page_size''])"

definition get_paginated_date :: "store \<Rightarrow> int \<Rightarrow> int \<Rightarrow> (api_error + PaginatedItems) \<times> store" where
  "get_paginated_date st pg ps =
     (let offset = (pg - 1) * ps;
          st1 = connect st in
      case scan st1 gym_table of
        Inl e \<Rightarrow> (Inl (sql_failure e), st1)
      | Inr t \<Rightarrow>
          (let tot = int (length t) in
           if tot = 0 then
             (Inr \<lparr>MemberData = [], total = 0, page = pg, page_size = ps\<rparr>, st1)
           else
             (case fetch_page ps offset t of
                Inl e \<Rightarrow> (Inl (sql_failure e), st1)
              | Inr rows \<Rightarrow>
                  (case to_member_data_list rows of
                     Inl fs \<Rightarrow> (Inl (Internal_Server_Error (''ValidationError: '' @ concat fs)), st1)
                   | Inr ms \<Rightarrow>
                       (Inr \<lparr>MemberData = ms, total = tot, page = pg, page_size = ps\<rparr>,
                        close_conn st1)))))"

definition pagination_endpoint ::
  "store \<Rightarrow> int option \<Rightarrow> int option \<Rightarrow> (api_error + PaginatedItems) \<times> store" where
  "pagination_endpoint st page_q size_q =
     (let pg = (case page_q of None \<Rightarrow> 1 | Some v \<Rightarrow> v);
          ps = (case size_q of None \<Rightarrow> 10 | Some v \<Rightarrow> v);
          errs = validate_page_params pg ps in
      if errs = [] then get_paginated_date st pg ps
      else (Inl (Request_Validation_Error errs), st))"

definition page_rows :: "(api_error + PaginatedItems) \<Rightarrow> row list" where
  "page_rows res = (case res of Inl _ \<Rightarrow> [] | Inr p \<Rightarrow> map of_member_data (MemberData p))"
  \<comment> \<open>the rows a response carries, read back as rows of the table\<close>

definition paginated_wf :: "PaginatedItems \<Rightarrow> bool" where
  "paginated_wf p \<longleftrightarrow>
     1 \<le> page p \<and> 1 \<le> page_size p \<and> page_size p \<le> 100 \<and> 0 \<le> total p \<and>
     int (length (MemberData p)) \<le> min (page_size p) (max 0 (total p - (page p - 1) * page_size p))"
  \<comment> \<open>what a page promises its client: the validated parameters, a total, and
      no more items than the page size and the rows left after the offset\<close>

subsection \<open>A sample table\<close>

definition sample_member :: "int \<Rightarrow> string \<Rightarrow> string \<Rightarrow> string \<Rightarrow> row" where
  "sample_member i mt ex ch =
     \<lparr>member_id = Some i, name = Some ''Member'', age = Some 30, gender = Some ''Female'',
      address = Some ''Main Street'', phone_number = Some ''555-0100'',
      membership_type = Some mt, join_date = Some 19000, last_visit_date = Some 19300,
      favorite_exercise = Some ex, avg_workout_duration_min = Some 45,
      avg_calories_burned = Some 400, total_weight_lifted_kg = Some 1000,
      visits_per_month = Some 8, churn = Some ch\<rparr>"

definition sample_table :: table where
  "sample_table =
     map (\<lambda>i. sample_member (int i)
                (if i mod 3 = 0 then ''Monthly'' else if i mod 3 = 1 then ''Yearly'' else ''Quarterly'')
                (if i mod 2 = 0 then ''Squats'' else ''Pull-ups'')
                (if i mod 3 = 1 \<and> i < 12 then ''No'' else ''Yes''))
         [0..<25]"

definition sample_store :: store where
  "sample_store = \<lparr>tables = [gym_table \<mapsto> sample_table], open_conns = 0\<rparr>"

definition sample_store_null :: store where
  "sample_store_null =
     \<lparr>tables = [gym_table \<mapsto> (sample_member 100 ''Monthly'' ''Squats'' ''No'')
                                \<lparr>last_visit_date := None\<rparr> # sample_table],
      open_conns = 0\<rparr>"
  \<comment> \<open>the sample table with a first row whose last visit is missing\<close>

definition empty_store :: store where
  "empty_store = \<lparr>tables = [gym_table \<mapsto> []], open_conns = 0\<rparr>"

subsection \<open>Lemmas: the handlers on a present table\<close>

lemma validate_page_params_Nil_iff:
  "validate_page_params pg ps = [] \<longleftrightarrow> 1 \<le> pg \<and> 1 \<le> ps \<and> ps \<le> 100"
  by (simp add: validate_page_params_def)

lemma pagination_endpoint_valid:
  "1 \<le> pg \<Longrightarrow> 1 \<le> ps \<Longrightarrow> ps \<le> 100 \<Longrightarrow>
   pagination_endpoint st (Some pg) (Some ps) = get_paginated_date st pg ps"
  by (simp add: pagination_endpoint_def validate_page_params_Nil_iff)

lemma get_paginated_date_empty:
  "tables st gym_table = Some [] \<Longrightarrow>
   get_paginated_date st pg ps = (Inr \<lparr>MemberData = [], total = 0, page = pg, page_size = ps\<rparr>, connect st)"
  by (simp add: get_paginated_date_def scan_def)

lemma get_paginated_date_present:
  assumes "tables st gym_table = Some t" and "t \<noteq> []"
    and "ps \<le> 100" and "(pg - 1) * ps \<le> max_limit_offset"
    and "\<forall>r\<in>set (slice (nat ps) (nat ((pg - 1) * ps)) t). row_dates_in_range r"
  shows "get_paginated_date st pg ps =
     (case to_member_data_list (slice (nat ps) (nat ((pg - 1) * ps)) t) of
         Inl fs \<Rightarrow> (Inl (Internal_Server_Error (''ValidationError: '' @ concat fs)), connect st)
       | Inr ms \<Rightarrow> (Inr \<lparr>MemberData = ms, total = int (length t), page = pg, page_size = ps\<rparr>, st))"
  using assms fetch_page_ok [OF limit_100_in_bounds [OF assms(3)] assms(4,5)]
  by (simp add: get_paginated_date_def scan_def Let_def split: sum.split)

lemma get_paginated_date_offset_error:
  assumes "tables st gym_table = Some t" and "t \<noteq> []" and "max_limit_offset < (pg - 1) * ps"
  shows "\<exists>msg. get_paginated_date st pg ps = (Inl (Internal_Server_Error msg), connect st)"
proof -
  obtain msg where "fetch_page ps ((pg - 1) * ps) t = Inl (Binder_Error msg)"
    using fetch_page_offset_error [OF assms(3)] by blast
  then show ?thesis
    using assms(1,2) by (simp add: get_paginated_date_def scan_def Let_def sql_failure_def)
qed

lemma get_paginated_date_date_error:
  assumes "tables st gym_table = Some t" and "ps \<le> 100" and "(pg - 1) * ps \<le> max_limit_offset"
    and "r \<in> set (slice (nat ps) (nat ((pg - 1) * ps)) t)" and "\<not> row_dates_in_range r"
  shows "\<exists>msg. get_paginated_date st pg ps = (Inl (Internal_Server_Error msg), connect st)"
proof -
  have "t \<noteq> []" using assms(4) set_slice_subset by fastforce
  moreover obtain msg where "fetch_page ps ((pg - 1) * ps) t = Inl (Fetch_Error msg)"
    using fetch_page_date_error [OF limit_100_in_bounds [OF assms(2)] assms(3-5)] by blast
  ultimately show ?thesis
    using assms(1) by (simp add: get_paginated_date_def scan_def Let_def sql_failure_def)
qed

lemma offset_in_bounds:
  assumes "1 \<le> pg" and "1 \<le> ps" and "nat ((pg - 1) * ps) < length t"
    and "int (length t) \<le> max_limit_offset"
  shows "(pg - 1) * ps \<le> max_limit_offset"
  using assms by linarith

lemma page_rows_complete:
  assumes "tables st gym_table = Some t" and "\<forall>r\<in>set (slice (nat ps) (nat ((pg - 1) * ps)) t). complete_row r"
    and "1 \<le> pg" and "1 \<le> ps" and "ps \<le> 100" and "int (length t) \<le> max_limit_offset"
    and "\<forall>r\<in>set (slice (nat ps) (nat ((pg - 1) * ps)) t). row_dates_in_range r"
  shows "page_rows (fst (get_paginated_date st pg ps)) = slice (nat ps) (nat ((pg - 1) * ps)) t"
proof (cases "t = [] \<or> length t \<le> nat ((pg - 1) * ps)")
  case True
  then have sl: "slice (nat ps) (nat ((pg - 1) * ps)) t = []" by (auto simp: slice_eq_Nil_iff)
  show ?thesis
  proof (cases "t = []")
    case True
    then show ?thesis
      using get_paginated_date_empty [of st pg ps] assms(1) sl by (simp add: page_rows_def)
  next
    case nz: False
    show ?thesis
    proof (cases "max_limit_offset < (pg - 1) * ps")
      case True
      then show ?thesis
        using get_paginated_date_offset_error [OF assms(1) nz True] sl by (auto simp: page_rows_def)
    next
      case False
      then show ?thesis
        using assms(1,5) nz sl by (simp add: get_paginated_date_present page_rows_def not_less)
    qed
  qed
next
  case False
  then have nz: "t \<noteq> []" and ofs: "(pg - 1) * ps \<le> max_limit_offset"
    using offset_in_bounds [OF assms(3,4) _ assms(6)] by auto
  obtain ms where ms: "to_member_data_list (slice (nat ps) (nat ((pg - 1) * ps)) t) = Inr ms"
    using assms(2) to_member_data_list_Inr_iff by blast
  then have "map of_member_data ms = slice (nat ps) (nat ((pg - 1) * ps)) t"
    by (rule to_member_data_list_map)
  then show ?thesis
    using ms get_paginated_date_present [OF assms(1) nz assms(5) ofs assms(7)] by (simp add: page_rows_def)
qed

lemma page_rows_endpoint:
  assumes "tables st gym_table = Some t" and "\<forall>r\<in>set t. complete_row r"
    and "\<forall>r\<in>set t. row_dates_in_range r"
    and "1 \<le> pg" and "1 \<le> ps" and "ps \<le> 100" and "int (length t) \<le> max_limit_offset"
  shows "page_rows (fst (pagination_endpoint st (Some pg) (Some ps))) =
         slice (nat ps) (nat ((pg - 1) * ps)) t"
proof -
  have "page_rows (fst (get_paginated_date st pg ps)) = slice (nat ps) (nat ((pg - 1) * ps)) t"
    using page_rows_complete [OF assms(1) slice_all [OF assms(2)] assms(4-7) slice_all [OF assms(3)]] .
  with assms(4-6) show ?thesis
    by (simp only: pagination_endpoint_valid)
qed

lemma page_offset_nat:
  "1 \<le> pg \<Longrightarrow> 1 \<le> ps \<Longrightarrow> nat ((pg - 1) * ps) = (nat pg - 1) * nat ps"
  by (simp add: nat_mult_distrib nat_diff_distrib)

lemma get_paginated_date_wf:
  assumes "fst (get_paginated_date st pg ps) = Inr p" and "1 \<le> pg" and "1 \<le> ps" and "ps \<le> 100"
  shows "paginated_wf p"
proof -
  obtain t where t: "tables st gym_table = Some t"
    using assms(1) by (cases "tables st gym_table")
      (simp_all add: get_paginated_date_def scan_def Let_def)
  have off: "nat ((pg - 1) * ps) = (nat pg - 1) * nat ps" using assms(2,3) by (rule page_offset_nat)
  show ?thesis
  proof (cases "t = []")
    case True
    then show ?thesis using assms t by (auto simp: get_paginated_date_empty paginated_wf_def)
  next
    case False
    have ofs: "(pg - 1) * ps \<le> max_limit_offset"
    proof (rule ccontr)
      assume "\<not> (pg - 1) * ps \<le> max_limit_offset"
      then obtain msg where "get_paginated_date st pg ps = (Inl (Internal_Server_Error msg), connect st)"
        using get_paginated_date_offset_error [OF t False] by (auto simp: not_le)
      then show False using assms(1) by simp
    qed
    have dts: "\<forall>r\<in>set (slice (nat ps) (nat ((pg - 1) * ps)) t). row_dates_in_range r"
    proof (rule ccontr)
      assume "\<not> (\<forall>r\<in>set (slice (nat ps) (nat ((pg - 1) * ps)) t). row_dates_in_range r)"
      then obtain msg where "get_paginated_date st pg ps = (Inl (Internal_Server_Error msg), connect st)"
        using get_paginated_date_date_error [OF t assms(4) ofs] by blast
      then show False using assms(1) by simp
    qed
    obtain ms where ms: "to_member_data_list (slice (nat ps) (nat ((pg - 1) * ps)) t) = Inr ms"
      and p: "p = \<lparr>MemberData = ms, total = int (length t), page = pg, page_size = ps\<rparr>"
      using assms(1) get_paginated_date_present [OF t False assms(4) ofs dts] by (auto split: sum.splits)
    have len: "length ms = min (nat ps) (length t - (nat pg - 1) * nat ps)"
      using to_member_data_list_length [OF ms] off by simp
    have a: "int (nat pg - 1) = pg - 1" "int (nat ps) = ps" using assms(2,3) by simp_all
    have conv: "int (length t - (nat pg - 1) * nat ps) = max 0 (int (length t) - (pg - 1) * ps)"
    proof -
      have x: "int ((nat pg - 1) * nat ps) = (pg - 1) * ps" using a by (simp only: of_nat_mult)
      have "int (length t - X) = max 0 (int (length t) - int X)" for X :: nat
        by (cases "X \<le> length t") (simp_all add: of_nat_diff)
      from this [of "(nat pg - 1) * nat ps"] show ?thesis by (simp only: x)
    qed
    have "int (length ms) = min (int (nat ps)) (int (length t - (nat pg - 1) * nat ps))"
      by (simp only: len of_nat_min)
    then have "int (length ms) = min ps (max 0 (int (length t) - (pg - 1) * ps))"
      by (simp only: a(2) conv)
    then show ?thesis using assms(2,3,4) p by (simp add: paginated_wf_def)
  qed
qed
lemma churn_by_membership_mset:
  "mset (churn_by_membership t) = mset (map (\<lambda>ty. (ty, num_churns t ty)) (churn_groups t))"
  by (simp add: churn_by_membership_def)

lemma churn_by_membership_sorted:
  "sorted_wrt (\<lambda>a b. snd b \<le> snd a) (churn_by_membership t)"
  using sorted_desc_sort_key [of "\<lambda>g. int (snd g)"]
  by (simp add: churn_by_membership_def)

lemma exercise_member_count_Nil_iff:
  "exercise_member_count t ex = [] \<longleftrightarrow> (\<forall>r\<in>set t. favorite_exercise r \<noteq> Some ex)"
  by (auto simp: exercise_member_count_def Let_def filter_empty_conv)

lemma get_member_data_present:
  "tables st gym_table = Some t \<Longrightarrow>
   get_member_data st (Some ex) = (Inr (exercise_member_count t ex), st)"
  by (simp add: get_member_data_def scan_def)

lemma get_churn_data_present:
  "tables st gym_table = Some t \<Longrightarrow> get_churn_data st = (Inr (churn_by_membership t), st)"
  by (simp add: get_churn_data_def scan_def)

lemma churn_by_membership_fst:
  "distinct (map fst (churn_by_membership t)) \<and>
   set (map fst (churn_by_membership t)) = membership_type ` set t"
proof -
  have "mset (map fst (churn_by_membership t)) =
        image_mset fst (mset (map (\<lambda>ty. (ty, num_churns t ty)) (churn_groups t)))"
    by (simp only: mset_map churn_by_membership_mset)
  also have "\<dots> = mset (map fst (map (\<lambda>ty. (ty, num_churns t ty)) (churn_groups t)))"
    by (simp only: mset_map)
  also have "\<dots> = mset (churn_groups t)"
    by (simp add: comp_def)
  finally have m: "mset (map fst (churn_by_membership t)) = mset (churn_groups t)" .
  show ?thesis
    using mset_eq_imp_distinct_iff [OF m] mset_eq_setD [OF m] by (simp add: churn_groups_def)
qed

lemma churn_by_membership_counts:
  "g \<in> set (churn_by_membership t) \<Longrightarrow> snd g = num_churns t (fst g)"
  using mset_eq_setD [OF churn_by_membership_mset [of t]] by auto

lemma churn_by_membership_meets_spec: "churn_spec t (churn_by_membership t)"
  using churn_by_membership_mset [of t] churn_by_membership_sorted [of t]
  by (simp add: churn_spec_def num_churns_def churn_groups_def)

lemma churn_spec_snd:
  assumes "churn_spec t out"
  shows "mset (map snd out) = mset (map snd (churn_by_membership t)) \<and>
         sorted_wrt (\<lambda>a b. b \<le> a) (map snd out)"
  using assms churn_by_membership_meets_spec [of t]
  by (simp add: churn_spec_def sorted_wrt_map mset_map)

subsection \<open>Properties of the paginated listing\<close>

text \<open>C1. A valid request for a page of a non-empty table whose rows have no
  null field, with an offset DuckDB accepts, answers with the rows
  \<open>LIMIT page_size OFFSET (page - 1) * page_size\<close> of the table, in storage
  order, the row count as \<open>total\<close>, the page and page size of the request, and
  closes the connection it opened.\<close>

theorem pagination_returns_slice:
  assumes "tables st gym_table = Some t" and "\<forall>r\<in>set t. complete_row r"
    and "\<forall>r\<in>set t. row_dates_in_range r" and "t \<noteq> []"
    and "1 \<le> pg" and "1 \<le> ps" and "ps \<le> 100" and "(pg - 1) * ps \<le> max_limit_offset"
  shows "\<exists>ms. pagination_endpoint st (Some pg) (Some ps) =
           (Inr \<lparr>MemberData = ms, total = int (length t), page = pg, page_size = ps\<rparr>, st) \<and>
           map of_member_data ms = slice (nat ps) (nat ((pg - 1) * ps)) t"
proof -
  have "\<forall>r\<in>set (slice (nat ps) (nat ((pg - 1) * ps)) t). complete_row r"
    using assms(2) set_slice_subset [of "nat ps" "nat ((pg - 1) * ps)" t] by blast
  then obtain ms where ms: "to_member_data_list (slice (nat ps) (nat ((pg - 1) * ps)) t) = Inr ms"
    using to_member_data_list_Inr_iff by blast
  have "map of_member_data ms = slice (nat ps) (nat ((pg - 1) * ps)) t"
    using ms by (rule to_member_data_list_map)
  with ms assms slice_all [OF assms(3)] show ?thesis
    by (simp add: pagination_endpoint_valid get_paginated_date_present)
qed

theorem pagination_returns_slice_witness:
  "tables sample_store gym_table = Some sample_table \<and> list_all complete_row sample_table \<and>
   list_all row_dates_in_range sample_table \<and> sample_table \<noteq> [] \<and> (1::int) \<le> 1 \<and> (1::int) \<le> 10 \<and> (10::int) \<le> 100 \<and>
   ((1::int) - 1) * 10 \<le> max_limit_offset \<and>
   (\<exists>ms. pagination_endpoint sample_store (Some 1) (Some 10) =
      (Inr \<lparr>MemberData = ms, total = int (length sample_table), page = 1, page_size = 10\<rparr>,
       sample_store) \<and>
      map of_member_data ms = slice (nat 10) (nat ((1 - 1) * 10)) sample_table)"
proof -
  have h1: "tables sample_store gym_table = Some sample_table"
    by (simp add: sample_store_def)
  have h2: "\<forall>r\<in>set sample_table. complete_row r"
    by code_simp
  have h3: "sample_table \<noteq> []"
    by code_simp
  have h4: "\<forall>r\<in>set sample_table. row_dates_in_range r"
    by code_simp
  show ?thesis
    using h1 h2 h3 h4 pagination_returns_slice [OF h1 h2 h4 h3, of 1 10]
    by (simp add: list_all_iff max_limit_offset_def)
qed

text \<open>C2. On a table of complete rows, a valid page request carries
  \<open>min page_size (total - offset)\<close> rows, where
  \<open>offset = (page - 1) * page_size\<close>; in particular never more than 100.\<close>

theorem pagination_page_length:
  assumes "tables st gym_table = Some t" and "\<forall>r\<in>set t. complete_row r"
    and "\<forall>r\<in>set t. row_dates_in_range r" and "1 \<le> pg" and "1 \<le> ps" and "ps \<le> 100" and "int (length t) \<le> max_limit_offset"
  shows "length (page_rows (fst (pagination_endpoint st (Some pg) (Some ps)))) =
           min (nat ps) (length t - (nat pg - 1) * nat ps) \<and>
         length (page_rows (fst (pagination_endpoint st (Some pg) (Some ps)))) \<le> 100"
proof -
  have "nat ps \<le> 100" using assms(6) by simp
  then show ?thesis
    using page_rows_endpoint [OF assms] page_offset_nat [OF assms(4,5)]
    by (simp add: min_le_iff_disj)
qed

theorem pagination_page_length_witness:
  "length (page_rows (fst (pagination_endpoint sample_store (Some 1) (Some 10)))) =
     min (nat 10) (length sample_table - (nat 1 - 1) * nat 10) \<and>
   length (page_rows (fst (pagination_endpoint sample_store (Some 1) (Some 10)))) = 10"
proof -
  have h1: "tables sample_store gym_table = Some sample_table"
    by (simp add: sample_store_def)
  have h2: "\<forall>r\<in>set sample_table. complete_row r"
    by code_simp
  have h3: "length sample_table = 25"
    by (simp add: sample_table_def)
  have h4: "int (length sample_table) \<le> max_limit_offset"
    by (simp add: h3 max_limit_offset_def)
  have h5: "\<forall>r\<in>set sample_table. row_dates_in_range r"
    by code_simp
  show ?thesis
    using pagination_page_length [of sample_store sample_table 1 10] h1 h2 h3 h4 h5 by simp
qed

text \<open>C3. The pages \<open>1, 2, \<dots>, \<lceil>total / page_size\<rceil>\<close> of a table of
  complete rows, read in order, give back the whole table: every row appears on
  exactly one page, in storage order.\<close>

theorem pagination_pages_cover_table:
  assumes "tables st gym_table = Some t" and "\<forall>r\<in>set t. complete_row r"
    and "\<forall>r\<in>set t. row_dates_in_range r" and "1 \<le> ps" and "ps \<le> 100" and "int (length t) \<le> max_limit_offset"
  shows "concat (map (\<lambda>i. page_rows (fst (pagination_endpoint st (Some (int i + 1)) (Some ps))))
                     [0..<ceil_div (length t) (nat ps)]) = t"
proof -
  have "page_rows (fst (pagination_endpoint st (Some (int i + 1)) (Some ps))) =
        slice (nat ps) (i * nat ps) t" for i
    using page_rows_endpoint [OF assms(1-3), of "int i + 1" ps] assms(4-6)
    by (simp add: nat_mult_distrib)
  then have "concat (map (\<lambda>i. page_rows (fst (pagination_endpoint st (Some (int i + 1)) (Some ps))))
                     [0..<ceil_div (length t) (nat ps)]) =
             take (ceil_div (length t) (nat ps) * nat ps) t"
    by (simp add: concat_slices)
  also have "\<dots> = t"
    using assms(4) by (simp add: take_ceil_div_pages)
  finally show ?thesis .
qed

theorem pagination_pages_cover_table_witness:
  "concat (map (\<lambda>i. page_rows (fst (pagination_endpoint sample_store (Some (int i + 1)) (Some 10))))
                [0..<ceil_div (length sample_table) (nat 10)]) = sample_table"
proof -
  have h1: "tables sample_store gym_table = Some sample_table"
    by (simp add: sample_store_def)
  have h2: "\<forall>r\<in>set sample_table. complete_row r"
    by code_simp
  have h3: "int (length sample_table) \<le> max_limit_offset"
    by (simp add: sample_table_def max_limit_offset_def)
  have h4: "\<forall>r\<in>set sample_table. row_dates_in_range r"
    by code_simp
  show ?thesis
    using pagination_pages_cover_table [of sample_store sample_table 10] h1 h2 h3 h4 by simp
qed

text \<open>C4. On a table of complete rows, page \<open>page\<close> of a valid request is
  non-empty exactly when \<open>page \<le> \<lceil>total / page_size\<rceil>\<close>: the number of
  non-empty pages is \<open>\<lceil>total / page_size\<rceil>\<close>.\<close>

theorem pagination_nonempty_iff:
  assumes "tables st gym_table = Some t" and "\<forall>r\<in>set t. complete_row r"
    and "\<forall>r\<in>set t. row_dates_in_range r" and "1 \<le> pg" and "1 \<le> ps" and "ps \<le> 100" and "int (length t) \<le> max_limit_offset"
  shows "page_rows (fst (pagination_endpoint st (Some pg) (Some ps))) \<noteq> [] \<longleftrightarrow>
         nat pg \<le> ceil_div (length t) (nat ps)"
proof -
  have ps: "0 < nat ps" using assms(5) by simp
  have "page_rows (fst (pagination_endpoint st (Some pg) (Some ps))) \<noteq> [] \<longleftrightarrow>
        (nat pg - 1) * nat ps < length t"
    using page_rows_endpoint [OF assms] page_offset_nat [OF assms(4,5)] ps
    by (simp add: slice_eq_Nil_iff not_le)
  also have "\<dots> \<longleftrightarrow> nat pg - 1 < ceil_div (length t) (nat ps)"
    using ceil_div_less_iff [OF ps] by simp
  also have "\<dots> \<longleftrightarrow> nat pg \<le> ceil_div (length t) (nat ps)"
    using assms(4) by linarith
  finally show ?thesis .
qed

theorem pagination_nonempty_iff_witness:
  "page_rows (fst (pagination_endpoint sample_store (Some 3) (Some 10))) \<noteq> [] \<and>
   page_rows (fst (pagination_endpoint sample_store (Some 4) (Some 10))) = []"
proof -
  have h1: "tables sample_store gym_table = Some sample_table"
    by (simp add: sample_store_def)
  have h2: "\<forall>r\<in>set sample_table. complete_row r"
    by code_simp
  have h3: "ceil_div (length sample_table) 10 = 3"
    by (simp add: sample_table_def ceil_div_def)
  have h4: "int (length sample_table) \<le> max_limit_offset"
    by (simp add: sample_table_def max_limit_offset_def)
  have h5: "\<forall>r\<in>set sample_table. row_dates_in_range r"
    by code_simp
  show ?thesis
    using pagination_nonempty_iff [of sample_store sample_table 3 10]
      pagination_nonempty_iff [of sample_store sample_table 4 10] h1 h2 h3 h4 h5
    by simp
qed

text \<open>C5. A request whose page is below 1 or whose page size is outside
  1..100 is answered by FastAPI's validation error, naming exactly the
  offending parameters, before the handler runs: the store is not touched.\<close>

theorem pagination_rejects_invalid:
  assumes "pg < 1 \<or> ps < 1 \<or> 100 < ps"
  shows "\<exists>errs. pagination_endpoint st (Some pg) (Some ps) =
                 (Inl (Request_Validation_Error errs), st) \<and>
               (''page'' \<in> set errs \<longleftrightarrow> pg < 1) \<and>
               (''page_size'' \<in> set errs \<longleftrightarrow> ps < 1 \<or> 100 < ps)"
  using assms by (auto simp: pagination_endpoint_def validate_page_params_def)

theorem pagination_rejects_invalid_witness:
  "\<exists>errs. pagination_endpoint sample_store (Some 0) (Some 0) =
            (Inl (Request_Validation_Error errs), sample_store) \<and>
          (''page'' \<in> set errs \<longleftrightarrow> (0::int) < 1) \<and>
          (''page_size'' \<in> set errs \<longleftrightarrow> (0::int) < 1 \<or> 100 < (0::int))"
  using pagination_rejects_invalid [of 0 0 sample_store] by simp

text \<open>On an empty table a valid request is answered with no rows and
  \<open>total = 0\<close>, echoing the page and page size.\<close>

theorem pagination_empty_table:
  assumes "tables st gym_table = Some []" and "1 \<le> pg" and "1 \<le> ps" and "ps \<le> 100"
  shows "fst (pagination_endpoint st (Some pg) (Some ps)) =
           Inr \<lparr>MemberData = [], total = 0, page = pg, page_size = ps\<rparr>"
  using assms by (simp add: pagination_endpoint_valid get_paginated_date_empty)

theorem pagination_empty_table_witness:
  "fst (pagination_endpoint empty_store (Some 2) (Some 5)) =
     Inr \<lparr>MemberData = [], total = 0, page = 2, page_size = 5\<rparr>"
  using pagination_empty_table [of empty_store 2 5] by (simp add: empty_store_def)

text \<open>C6. On that empty-table path the handler returns before
  \<^verbatim>\<open>cursor.close()\<close>: the connection it opened stays open.\<close>

theorem pagination_empty_table_leaves_connection_open:
  assumes "tables st gym_table = Some []" and "1 \<le> pg" and "1 \<le> ps" and "ps \<le> 100"
  shows "open_conns (snd (pagination_endpoint st (Some pg) (Some ps))) = Suc (open_conns st)"
  using assms by (simp add: pagination_endpoint_valid get_paginated_date_empty)

theorem pagination_empty_table_leaves_connection_open_witness:
  "open_conns (snd (pagination_endpoint empty_store (Some 1) (Some 10))) = 1"
  using pagination_empty_table_leaves_connection_open [of empty_store 1 10]
  by (simp add: empty_store_def)

text \<open>C7. A null cell in any column of a row on the requested page makes the
  construction of its \<open>MemberData\<close> fail: the request is answered with a
  server error (and the connection is left open), although the row is in the
  table.\<close>

theorem pagination_null_field_fails:
  assumes "tables st gym_table = Some t" and "1 \<le> pg" and "1 \<le> ps" and "ps \<le> 100"
    and "r \<in> set (slice (nat ps) (nat ((pg - 1) * ps)) t)" and "null_fields r \<noteq> []"
  shows "\<exists>msg. pagination_endpoint st (Some pg) (Some ps) =
                (Inl (Internal_Server_Error msg), connect st)"
proof -
  have t: "t \<noteq> []" using assms(5) set_slice_subset by fastforce
  show ?thesis
  proof (cases "max_limit_offset < (pg - 1) * ps")
    case True
    then show ?thesis
      using get_paginated_date_offset_error [OF assms(1) t] assms(2-4)
      by (simp add: pagination_endpoint_valid)
  next
    case False
    then have ofs: "(pg - 1) * ps \<le> max_limit_offset" by simp
    show ?thesis
    proof (cases "\<forall>r'\<in>set (slice (nat ps) (nat ((pg - 1) * ps)) t). row_dates_in_range r'")
      case True
      have "\<not> (\<exists>ms. to_member_data_list (slice (nat ps) (nat ((pg - 1) * ps)) t) = Inr ms)"
        using assms(5,6) by (auto simp: to_member_data_list_Inr_iff complete_row_def)
      then obtain fs where "to_member_data_list (slice (nat ps) (nat ((pg - 1) * ps)) t) = Inl fs"
        by (cases "to_member_data_list (slice (nat ps) (nat ((pg - 1) * ps)) t)") auto
      then show ?thesis
        using assms(1-4) get_paginated_date_present [OF assms(1) t assms(4) ofs True]
        by (simp add: pagination_endpoint_valid)
    next
      case False
      then obtain r' where "r' \<in> set (slice (nat ps) (nat ((pg - 1) * ps)) t)" "\<not> row_dates_in_range r'"
        by blast
      then show ?thesis
        using get_paginated_date_date_error [OF assms(1,4) ofs] assms(2-4)
        by (simp add: pagination_endpoint_valid)
    qed
  qed
qed

theorem pagination_null_field_fails_witness:
  "\<exists>msg. pagination_endpoint sample_store_null (Some 1) (Some 10) =
           (Inl (Internal_Server_Error msg), connect sample_store_null)"
proof -
  let ?r = "(sample_member 100 ''Monthly'' ''Squats'' ''No'')\<lparr>last_visit_date := None\<rparr>"
  have h1: "tables sample_store_null gym_table = Some (?r # sample_table)"
    by (simp add: sample_store_null_def)
  have h2: "?r \<in> set (slice (nat 10) (nat ((1 - 1) * 10)) (?r # sample_table))"
    by (simp add: slice_def)
  have h3: "null_fields ?r \<noteq> []"
    by (simp add: null_fields_def sample_member_def)
  show ?thesis
    using pagination_null_field_fails [OF h1 _ _ _ h2 h3] by simp
qed

text \<open>C8. FastAPI puts no upper bound on \<open>page\<close>, but DuckDB refuses an
  \<^verbatim>\<open>OFFSET\<close> above \<open>2^62\<close>: on a non-empty table of complete rows, a
  valid request is answered with a server error exactly when
  \<open>(page - 1) * page_size\<close> exceeds that bound, and then the connection it
  opened is left open.\<close>

theorem pagination_offset_out_of_range:
  assumes "tables st gym_table = Some t" and "t \<noteq> []" and "\<forall>r\<in>set t. complete_row r"
    and "\<forall>r\<in>set t. row_dates_in_range r" and "1 \<le> pg" and "1 \<le> ps" and "ps \<le> 100"
  shows "(\<exists>msg. pagination_endpoint st (Some pg) (Some ps) = (Inl (Internal_Server_Error msg), connect st))
         \<longleftrightarrow> max_limit_offset < (pg - 1) * ps"
proof
  assume "\<exists>msg. pagination_endpoint st (Some pg) (Some ps) = (Inl (Internal_Server_Error msg), connect st)"
  then obtain msg where err: "get_paginated_date st pg ps = (Inl (Internal_Server_Error msg), connect st)"
    using assms(5-7) by (auto simp: pagination_endpoint_valid)
  show "max_limit_offset < (pg - 1) * ps"
  proof (rule ccontr)
    assume "\<not> max_limit_offset < (pg - 1) * ps"
    then have ofs: "(pg - 1) * ps \<le> max_limit_offset" by simp
    obtain ms where "to_member_data_list (slice (nat ps) (nat ((pg - 1) * ps)) t) = Inr ms"
      using slice_all [OF assms(3)] to_member_data_list_Inr_iff by blast
    then show False
      using err get_paginated_date_present [OF assms(1,2,7) ofs slice_all [OF assms(4)]] by simp
  qed
next
  assume "max_limit_offset < (pg - 1) * ps"
  then show "\<exists>msg. pagination_endpoint st (Some pg) (Some ps) = (Inl (Internal_Server_Error msg), connect st)"
    using get_paginated_date_offset_error [OF assms(1,2)] assms(5-7) by (simp add: pagination_endpoint_valid)
qed

theorem pagination_offset_out_of_range_witness:
  "(\<exists>msg. pagination_endpoint sample_store (Some (2 ^ 60)) (Some 10) =
          (Inl (Internal_Server_Error msg), connect sample_store)) \<and>
   \<not> (\<exists>msg. pagination_endpoint sample_store (Some (2 ^ 58)) (Some 10) =
          (Inl (Internal_Server_Error msg), connect sample_store))"
proof -
  have h1: "tables sample_store gym_table = Some sample_table"
    by (simp add: sample_store_def)
  have h2: "sample_table \<noteq> []"
    by code_simp
  have h3: "\<forall>r\<in>set sample_table. complete_row r"
    by code_simp
  have h4: "\<forall>r\<in>set sample_table. row_dates_in_range r"
    by code_simp
  show ?thesis
    using pagination_offset_out_of_range [OF h1 h2 h3 h4, of "2 ^ 60" 10]
      pagination_offset_out_of_range [OF h1 h2 h3 h4, of "2 ^ 58" 10]
    by (simp add: max_limit_offset_def)
qed

subsection \<open>Properties of the churn query\<close>

text \<open>C9. The churn answer is ordered by the number of churned members,
  never increasing along the list, and the call closes its connection.\<close>

theorem churn_counts_sorted_desc:
  "tables st gym_table = Some t \<Longrightarrow>
   \<exists>out. get_churn_data st = (Inr out, st) \<and> sorted_wrt (\<lambda>a b. snd b \<le> snd a) out"
  by (simp add: get_churn_data_present churn_by_membership_sorted)

theorem churn_counts_sorted_desc_witness:
  "\<exists>out. get_churn_data sample_store = (Inr out, sample_store) \<and>
         sorted_wrt (\<lambda>a b. snd b \<le> snd a) out"
  using churn_counts_sorted_desc [of sample_store sample_table] by (simp add: sample_store_def)

text \<open>C10. The churn answer has one entry per membership type of the table
  (the NULL type included), and each entry's count is the number of rows of
  that type whose churn column is \<^verbatim>\<open>'Yes'\<close>.\<close>

theorem churn_counts_exact:
  assumes "tables st gym_table = Some t"
  shows "\<exists>out. get_churn_data st = (Inr out, st) \<and> distinct (map fst out) \<and>
           set (map fst out) = membership_type ` set t \<and>
           (\<forall>g\<in>set out. snd g =
              length (filter (\<lambda>r. membership_type r = fst g \<and> churn r = Some ''Yes'') t))"
  using assms churn_by_membership_fst [of t] churn_by_membership_counts [of _ t]
  by (simp add: get_churn_data_present num_churns_def)

theorem churn_counts_exact_witness:
  "get_churn_data sample_store =
     (Inr [(Some ''Monthly'', 9), (Some ''Quarterly'', 8), (Some ''Yearly'', 4)], sample_store) \<and>
   (\<exists>out. get_churn_data sample_store = (Inr out, sample_store) \<and> distinct (map fst out) \<and>
      set (map fst out) = membership_type ` set sample_table \<and>
      list_all (\<lambda>g. snd g =
        length (filter (\<lambda>r. membership_type r = fst g \<and> churn r = Some ''Yes'') sample_table)) out)"
proof -
  have h1: "tables sample_store gym_table = Some sample_table"
    by (simp add: sample_store_def)
  have h2: "churn_by_membership sample_table =
              [(Some ''Monthly'', 9), (Some ''Quarterly'', 8), (Some ''Yearly'', 4)]"
    by code_simp
  show ?thesis
    using churn_counts_exact [OF h1] h1 h2 by (simp add: get_churn_data_present list_all_iff)
qed

text \<open>C11. Every answer SQL allows has the same sequence of counts as the
  model's: the unspecified order of ties in \<^verbatim>\<open>ORDER BY num_churns DESC\<close>
  can only exchange groups with equal counts.\<close>

theorem churn_spec_counts_determined:
  "churn_spec t out \<Longrightarrow> map snd out = map snd (churn_by_membership t)"
  using churn_spec_snd [of t out] churn_spec_snd [OF churn_by_membership_meets_spec [of t]]
  by (blast intro: sorted_desc_mset_unique)

theorem churn_spec_counts_determined_witness:
  "churn_spec sample_table [(Some ''Monthly'', 9), (Some ''Quarterly'', 8), (Some ''Yearly'', 4)] \<and>
   map snd [(Some ''Monthly'', 9::nat), (Some ''Quarterly'', 8), (Some ''Yearly'', 4)] =
     map snd (churn_by_membership sample_table)"
proof -
  have h: "churn_spec sample_table [(Some ''Monthly'', 9), (Some ''Quarterly'', 8), (Some ''Yearly'', 4)]"
    by code_simp
  show ?thesis using h churn_spec_counts_determined [OF h] by simp
qed

subsection \<open>Properties of the favorite-exercise query\<close>

text \<open>An exercise no row names is answered with the empty list, not an
  error; the answer is empty only for such exercises.\<close>

theorem exercise_unknown_empty:
  "tables st gym_table = Some t \<Longrightarrow>
   fst (get_member_data st (Some ex)) = Inr [] \<longleftrightarrow> (\<forall>r\<in>set t. favorite_exercise r \<noteq> Some ex)"
  by (simp add: get_member_data_present exercise_member_count_Nil_iff)

theorem exercise_unknown_empty_witness:
  "fst (get_member_data sample_store (Some ''Yoga'')) = Inr [] \<and>
   fst (get_member_data sample_store (Some ''Squats'')) \<noteq> Inr []"
proof -
  have h1: "tables sample_store gym_table = Some sample_table"
    by (simp add: sample_store_def)
  have h2: "list_all (\<lambda>r. favorite_exercise r \<noteq> Some ''Yoga'') sample_table"
    by code_simp
  have h3: "\<not> list_all (\<lambda>r. favorite_exercise r \<noteq> Some ''Squats'') sample_table"
    by code_simp
  show ?thesis
    using exercise_unknown_empty [OF h1, of "''Yoga''"] exercise_unknown_empty [OF h1, of "''Squats''"]
      h2 h3 by (simp add: list_all_iff)
qed

text \<open>C12. For an exercise some row names, the answer is that exercise with
  the number of distinct non-null member ids among the rows that name it.\<close>

theorem exercise_distinct_members:
  assumes "tables st gym_table = Some t" and "\<exists>r\<in>set t. favorite_exercise r = Some ex"
  shows "fst (get_member_data st (Some ex)) =
           Inr [(ex, card {i. \<exists>r\<in>set t. favorite_exercise r = Some ex \<and> member_id r = Some i})]"
proof -
  have "filter (\<lambda>r. favorite_exercise r = Some ex) t \<noteq> []"
    using assms(2) by (auto simp: filter_empty_conv)
  moreover have "set (List.map_filter member_id (filter (\<lambda>r. favorite_exercise r = Some ex) t)) =
                 {i. \<exists>r\<in>set t. favorite_exercise r = Some ex \<and> member_id r = Some i}"
    by (auto simp: set_map_filter_eq)
  ultimately show ?thesis
    using assms(1)
    by (simp add: get_member_data_present exercise_member_count_def length_remdups_card_conv)
qed

theorem exercise_distinct_members_witness:
  "fst (get_member_data sample_store (Some ''Squats'')) =
     Inr [(''Squats'', card {i. \<exists>r\<in>set sample_table. favorite_exercise r = Some ''Squats'' \<and>
                                   member_id r = Some i})] \<and>
   fst (get_member_data sample_store (Some ''Squats'')) = Inr [(''Squats'', 13)]"
proof -
  have h1: "tables sample_store gym_table = Some sample_table"
    by (simp add: sample_store_def)
  have h2: "\<exists>r\<in>set sample_table. favorite_exercise r = Some ''Squats''"
    by code_simp
  have h3: "exercise_member_count sample_table ''Squats'' = [(''Squats'', 13)]"
    by code_simp
  show ?thesis
    using exercise_distinct_members [OF h1 h2] h1 h3 by (simp add: get_member_data_present)
qed

end
