(* ===== verification/Server.thy ===== *)
theory Server
  imports Queries Serving
begin

text \<open>
  The API process of \<^verbatim>\<open>src/app/main.py\<close> as a state machine. Its state is
  the record \<open>server\<close>: the in-memory dataframe \<open>df\<close> that the module
  computes at import (lines 17--33) and the store \<open>db\<close>. \<open>startup\<close> is the
  import of the module: the serving load, then \<open>create_table()\<close> (line 64)
  on the store left on disk by earlier runs; a load error aborts the process
  before it serves anything. A request is a value of \<open>request\<close>, one
  constructor per route, with the route's query parameters; \<open>handle\<close>
  dispatches it to the handler (\<open>get_rawdata_as_json\<close>, lines 41--44, reads
  \<open>df\<close> and not the store, and fails when \<^verbatim>\<open>to_dicts()\<close> meets a date
  Python cannot hold) and returns the response and the next state.
  \<open>reachable raw st0\<close> holds of the states of a process that started on the
  CSV rows \<open>raw\<close> and the store \<open>st0\<close> and then served any sequence of
  requests; \<open>run\<close> serves a list of requests in order. The uvicorn server
  handles one request at a time from the model's point of view: no handler
  writes the table, so their interleavings do not change any answer.
  The invariant \<open>server_inv\<close>, proved by rule induction over \<open>reachable\<close>,
  carries the claims about the loaded table and the connections; the page
  contract \<open>paginated_wf\<close> of \<open>Queries\<close> holds of every page response in any
  state.
\<close>

record server =
  df :: table
  db :: store

definition startup :: "raw_row list \<Rightarrow> store \<Rightarrow> load_error + server" where
  "startup raw st0 =
     (case serving_load raw of
        Inl e \<Rightarrow> Inl e
      | Inr t \<Rightarrow> Inr \<lparr>df = t, db = create_table t st0\<rparr>)"

definition get_rawdata_as_json :: "server \<Rightarrow> api_error + table" where
  "get_rawdata_as_json s =
     (if list_all row_dates_in_range (df s) then Inr (df s)
      else Inl (Internal_Server_Error ''ValueError: year is out of range''))"
  \<comment> \<open>\<^verbatim>\<open>df.to_dicts()\<close> builds a Python \<^verbatim>\<open>date\<close> for every date cell\<close>

datatype request =
    Serving_Raw_Dataset
  | Churn_By_Membership_Count
  | Favorite_Exercise_Member_Count "string option"
  | Data_Using_Pagination "int option" "int option"

datatype response =
    Rows table
  | Churn_Counts "(string option \<times> nat) list"
  | Exercise_Counts "(string \<times> nat) list"
  | Page PaginatedItems
  | Failure api_error

definition respond :: "('a \<Rightarrow> response) \<Rightarrow> (api_error + 'a) \<times> store \<Rightarrow> server \<Rightarrow> response \<times> server" where
  "respond k r s = ((case fst r of Inl e \<Rightarrow> Failure e | Inr v \<Rightarrow> k v), s\<lparr>db := snd r\<rparr>)"

fun handle :: "server \<Rightarrow> request \<Rightarrow> response \<times> server" where
  "handle s Serving_Raw_Dataset =
     ((case get_rawdata_as_json s of Inl e \<Rightarrow> Failure e | Inr t \<Rightarrow> Rows t), s)"
| "handle s Churn_By_Membership_Count = respond Churn_Counts (get_churn_data (db s)) s"
| "handle s (Favorite_Exercise_Member_Count ex) = respond Exercise_Counts (get_member_data (db s) ex) s"
| "handle s (Data_Using_Pagination pg ps) = respond Page (pagination_endpoint (db s) pg ps) s"

fun run :: "server \<Rightarrow> request list \<Rightarrow> response list \<times> server" where
  "run s [] = ([], s)"
| "run s (rq # rqs) =
     (let (r, s') = handle s rq; (rs, s'') = run s' rqs in (r # rs, s''))"

inductive reachable :: "raw_row list \<Rightarrow> store \<Rightarrow> server \<Rightarrow> bool" where
  start: "startup raw st0 = Inr s \<Longrightarrow> reachable raw st0 s"
| step: "reachable raw st0 s \<Longrightarrow> reachable raw st0 (snd (handle s rq))"

definition server_inv :: "raw_row list \<Rightarrow> store \<Rightarrow> server \<Rightarrow> bool" where
  "server_inv raw st0 s \<longleftrightarrow>
     serving_load raw = Inr (df s) \<and> tables (db s) = (tables st0)(gym_table \<mapsto> df s)"

definition response_rows :: "response \<Rightarrow> row list" where
  "response_rows r =
     (case r of Rows t \<Rightarrow> t | Page p \<Rightarrow> map of_member_data (MemberData p) | _ \<Rightarrow> [])"
  \<comment> \<open>the member rows a response carries\<close>

definition page_offset_rejected :: "request \<Rightarrow> bool" where
  "page_offset_rejected rq =
     (case rq of
        Data_Using_Pagination pg_q ps_q \<Rightarrow>
          (let pg = (case pg_q of None \<Rightarrow> 1 | Some v \<Rightarrow> v);
               ps = (case ps_q of None \<Rightarrow> 10 | Some v \<Rightarrow> v) in
           validate_page_params pg ps = [] \<and> max_limit_offset < (pg - 1) * ps)
      | _ \<Rightarrow> False)"
  \<comment> \<open>a page request that passes validation but whose offset DuckDB refuses\<close>

definition sample_server_store :: store where
  "sample_server_store = \<lparr>tables = Map.empty, open_conns = 0\<rparr>"

definition sample_raw_complete :: "raw_row list" where
  "sample_raw_complete =
     [raw_member 1 (Some ''Ann'') (Some 20) (Some ''2023-01-15'') (Some ''2024-03-01''),
      raw_member 2 (Some ''Bo'') None (Some ''2022-06-30'') (Some ''2024-02-11''),
      raw_member 4 (Some ''Cy'') (Some 60) (Some ''2021-11-02'') (Some ''2023-12-24'')]"

definition sample_raw_year0 :: "raw_row list" where
  "sample_raw_year0 =
     [raw_member 1 (Some ''Ann'') (Some 20) (Some ''0000-01-01'') (Some ''2024-03-01''),
      raw_member 2 (Some ''Bo'') (Some 40) (Some ''2022-06-30'') (Some ''2024-02-11'')]"
  \<comment> \<open>a join date in year 0, which chrono reads and Python's \<^verbatim>\<open>date\<close> cannot hold\<close>

definition sample_server :: server where
  "sample_server = projr (startup sample_raw_complete sample_server_store)"

lemma tables_get_churn_data [simp]: "tables (snd (get_churn_data st)) = tables st"
  by (simp add: get_churn_data_def Let_def split: sum.split)

lemma tables_get_member_data [simp]: "tables (snd (get_member_data st ex)) = tables st"
  by (simp add: get_member_data_def Let_def split: sum.split)

lemma tables_get_paginated_date [simp]: "tables (snd (get_paginated_date st pg ps)) = tables st"
  by (simp add: get_paginated_date_def Let_def split: sum.split)

lemma tables_pagination_endpoint [simp]: "tables (snd (pagination_endpoint st pg ps)) = tables st"
  by (simp add: pagination_endpoint_def Let_def)

lemma snd_respond [simp]: "snd (respond k r s) = s\<lparr>db := snd r\<rparr>"
  by (simp add: respond_def)

lemma fst_respond: "fst (respond k r s) = (case fst r of Inl e \<Rightarrow> Failure e | Inr v \<Rightarrow> k v)"
  by (simp add: respond_def)

lemma response_rows_respond_Page:
  "response_rows (fst (respond Page r s)) = page_rows (fst r)"
  by (simp add: fst_respond response_rows_def page_rows_def split: sum.split)

lemma handle_df [simp]: "df (snd (handle s rq)) = df s"
  by (cases rq) simp_all

lemma handle_tables [simp]: "tables (db (snd (handle s rq))) = tables (db s)"
  by (cases rq) simp_all

lemma snd_run_Cons [simp]: "snd (run s (rq # rqs)) = snd (run (snd (handle s rq)) rqs)"
  by (simp add: split_def Let_def)

lemma fst_run_Cons [simp]: "fst (run s (rq # rqs)) = fst (handle s rq) # fst (run (snd (handle s rq)) rqs)"
  by (simp add: split_def Let_def)

lemma startup_Inr:
  "startup raw st0 = Inr s \<longleftrightarrow> (\<exists>t. serving_load raw = Inr t \<and> s = \<lparr>df = t, db = create_table t st0\<rparr>)"
  by (auto simp: startup_def split: sum.splits)

lemma startup_inv: "startup raw st0 = Inr s \<Longrightarrow> server_inv raw st0 s"
  by (auto simp: startup_Inr server_inv_def tables_create_table)

lemma handle_inv: "server_inv raw st0 s \<Longrightarrow> server_inv raw st0 (snd (handle s rq))"
  by (simp add: server_inv_def)

lemma reachable_inv: "reachable raw st0 s \<Longrightarrow> server_inv raw st0 s"
proof (induction rule: reachable.induct)
  case (start raw st0 s)
  then show ?case by (rule startup_inv)
next
  case (step raw st0 s rq)
  from step.IH show ?case by (rule handle_inv)
qed

lemma server_inv_table: "server_inv raw st0 s \<Longrightarrow> tables (db s) gym_table = Some (df s)"
  by (simp add: server_inv_def)

lemma open_conns_paginated:
  assumes "tables st gym_table = Some t" and "t \<noteq> []" and "\<forall>r\<in>set t. complete_row r"
    and "\<forall>r\<in>set t. row_dates_in_range r" and "ps \<le> 100"
  shows "open_conns (snd (get_paginated_date st pg ps)) =
         open_conns st + (if max_limit_offset < (pg - 1) * ps then 1 else 0)"
proof (cases "max_limit_offset < (pg - 1) * ps")
  case True
  then show ?thesis using get_paginated_date_offset_error [OF assms(1,2) True] by auto
next
  case False
  obtain ms where "to_member_data_list (slice (nat ps) (nat ((pg - 1) * ps)) t) = Inr ms"
    using slice_all [OF assms(3)] to_member_data_list_Inr_iff by blast
  with False show ?thesis
    using get_paginated_date_present [OF assms(1,2,5) _ slice_all [OF assms(4)]] by simp
qed

lemma open_conns_handle:
  assumes "tables (db s) gym_table = Some (df s)" and "df s \<noteq> []" and "\<forall>r\<in>set (df s). complete_row r"
    and "\<forall>r\<in>set (df s). row_dates_in_range r"
  shows "open_conns (db (snd (handle s rq))) =
         open_conns (db s) + (if page_offset_rejected rq then 1 else 0)"
proof (cases rq)
  case (Data_Using_Pagination pg_q ps_q)
  let ?pg = "case pg_q of None \<Rightarrow> 1 | Some v \<Rightarrow> v"
  let ?ps = "case ps_q of None \<Rightarrow> 10 | Some v \<Rightarrow> v"
  show ?thesis
  proof (cases "validate_page_params ?pg ?ps = []")
    case True
    then have "?ps \<le> 100" by (simp add: validate_page_params_Nil_iff)
    with True show ?thesis
      using open_conns_paginated [OF assms, of ?ps ?pg] Data_Using_Pagination
      by (simp add: pagination_endpoint_def page_offset_rejected_def)
  next
    case False
    then show ?thesis
      using Data_Using_Pagination by (simp add: pagination_endpoint_def page_offset_rejected_def)
  qed
qed (use assms in \<open>simp_all add: get_churn_data_present get_member_data_def scan_def page_offset_rejected_def\<close>)

lemma run_open_conns:
  assumes "tables (db s) gym_table = Some (df s)" and "df s \<noteq> []" and "\<forall>r\<in>set (df s). complete_row r"
    and "\<forall>r\<in>set (df s). row_dates_in_range r"
  shows "open_conns (db (snd (run s rqs))) = open_conns (db s) + length (filter page_offset_rejected rqs)"
  using assms
proof (induction rqs arbitrary: s)
  case Nil
  then show ?case by simp
next
  case (Cons rq rqs)
  let ?s' = "snd (handle s rq)"
  have "open_conns (db (snd (run ?s' rqs))) = open_conns (db ?s') + length (filter page_offset_rejected rqs)"
    using Cons.prems by (intro Cons.IH) simp_all
  then show ?case
    using open_conns_handle [OF Cons.prems] by (simp del: run.simps)
qed

lemma sample_server_startup:
  "startup sample_raw_complete sample_server_store = Inr sample_server"
proof -
  have "\<forall>r\<in>set sample_raw_complete. join_date r \<noteq> None \<longrightarrow> dates_parse r"
    by code_simp
  then obtain t where "serving_load sample_raw_complete = Inr t"
    using serving_load_Inr_iff by blast
  then show ?thesis by (simp add: sample_server_def startup_def)
qed

lemma sample_server_reachable: "reachable sample_raw_complete sample_server_store sample_server"
  using sample_server_startup by (rule reachable.start)

lemma sample_year0_startup:
  "\<exists>s. startup sample_raw_year0 sample_server_store = Inr s"
proof -
  have "\<forall>r\<in>set sample_raw_year0. join_date r \<noteq> None \<longrightarrow> dates_parse r"
    by code_simp
  then obtain t where "serving_load sample_raw_year0 = Inr t"
    using serving_load_Inr_iff by blast
  then show ?thesis by (simp add: startup_def)
qed

lemma served_row_of_raw:
  assumes "serving_load raw = Inr t" and "r \<in> set raw" and "join_date r = Some j"
  shows "\<exists>d. naive_date_from_str j = Some d \<and>
             (\<exists>r'\<in>set t. member_id r' = member_id r \<and> join_date r' = Some d)"
proof -
  have "dates_parse r" using assms serving_load_Inr_iff by blast
  then obtain d where d: "naive_date_from_str j = Some d"
    using assms(3) by (auto simp: dates_parse_def)
  have "r \<in> set (filter (\<lambda>r. join_date r \<noteq> None) raw)" using assms(2,3) by simp
  then have "\<exists>r'\<in>set t. member_id r' = member_id r \<and> join_date r' = Some d"
    using serving_load_Inr [OF assms(1)] assms(3) d by (force simp: str_to_date_def)
  with d show ?thesis by blast
qed

subsection \<open>Properties of the running server\<close>

text \<open>C18. In every state of a running server the store's table
  \<open>gym_membership_data\<close> is the dataframe the module loaded, the dataframe is
  the serving load of the CSV, and every other table of the database file is
  as the process found it: requests never write the store.\<close>

theorem server_table_is_loaded:
  assumes "reachable raw st0 s"
  shows "serving_load raw = Inr (df s) \<and> tables (db s) gym_table = Some (df s) \<and>
         (\<forall>tn. tn \<noteq> gym_table \<longrightarrow> tables (db s) tn = tables st0 tn)"
  using reachable_inv [OF assms] by (simp add: server_inv_def)

theorem server_table_is_loaded_witness:
  "serving_load sample_raw_complete = Inr (df sample_server) \<and>
   tables (db sample_server) gym_table = Some (df sample_server) \<and>
   tables (db sample_server) ''members_backup'' = tables sample_server_store ''members_backup''"
proof -
  have "''members_backup'' \<noteq> gym_table" by (simp add: gym_table_def)
  then show ?thesis
    using server_table_is_loaded [OF sample_server_reachable] by blast
qed

text \<open>Once started, the store queries never fail: the churn and exercise
  routes answer with the query over the loaded table (the exercise defaulting
  to \<^verbatim>\<open>'Pull-ups'\<close>), never with a catalog error.\<close>

theorem server_store_queries_answer:
  assumes "reachable raw st0 s"
  shows "fst (handle s Churn_By_Membership_Count) = Churn_Counts (churn_by_membership (df s)) \<and>
         fst (handle s (Favorite_Exercise_Member_Count ex)) =
           Exercise_Counts (exercise_member_count (df s)
                              (case ex of None \<Rightarrow> default_exercise | Some e \<Rightarrow> e))"
proof -
  have tbl: "tables (db s) gym_table = Some (df s)"
    using reachable_inv [OF assms] by (rule server_inv_table)
  then show ?thesis
    by (simp add: fst_respond get_churn_data_present get_member_data_def scan_def)
qed

theorem server_store_queries_answer_witness:
  "fst (handle sample_server Churn_By_Membership_Count) =
     Churn_Counts (churn_by_membership (df sample_server)) \<and>
   fst (handle sample_server (Favorite_Exercise_Member_Count None)) =
     Exercise_Counts (exercise_member_count (df sample_server) ''Pull-ups'')"
  using server_store_queries_answer [OF sample_server_reachable, of None]
  by (simp add: default_exercise_def)

lemma pages_concat_rows:
  assumes "reachable raw st0 s" and "\<forall>r\<in>set (df s). complete_row r"
    and "\<forall>r\<in>set (df s). row_dates_in_range r"
    and "1 \<le> ps" and "ps \<le> 100" and "int (length (df s)) \<le> max_limit_offset"
  shows "concat (map (\<lambda>i. response_rows (fst (handle s (Data_Using_Pagination (Some (int i + 1)) (Some ps)))))
                     [0..<ceil_div (length (df s)) (nat ps)]) = df s"
proof -
  have tbl: "tables (db s) gym_table = Some (df s)"
    using reachable_inv [OF assms(1)] by (rule server_inv_table)
  have "response_rows (fst (handle s (Data_Using_Pagination (Some (int i + 1)) (Some ps)))) =
        slice (nat ps) (i * nat ps) (df s)" for i
    using page_rows_endpoint [OF tbl assms(2,3), of "int i + 1" ps] assms(4-6)
    by (simp add: response_rows_respond_Page nat_mult_distrib)
  then show ?thesis
    using assms(4) by (simp add: concat_slices take_ceil_div_pages)
qed

text \<open>C19. The two ways the API exposes the data agree: on a table of complete
  rows, the pages \<open>1..\<lceil>total / page_size\<rceil>\<close> of the paginated route,
  concatenated, are exactly the rows of the raw-dataset route (which reads the
  dataframe, not the store).\<close>

theorem server_pages_match_raw:
  assumes "reachable raw st0 s" and "\<forall>r\<in>set (df s). complete_row r"
    and "\<forall>r\<in>set (df s). row_dates_in_range r"
    and "1 \<le> ps" and "ps \<le> 100" and "int (length (df s)) \<le> max_limit_offset"
  shows "concat (map (\<lambda>i. response_rows (fst (handle s (Data_Using_Pagination (Some (int i + 1)) (Some ps)))))
                     [0..<ceil_div (length (df s)) (nat ps)]) =
         response_rows (fst (handle s Serving_Raw_Dataset))"
  using pages_concat_rows [OF assms] assms(3) by (simp add: response_rows_def get_rawdata_as_json_def list_all_iff)

theorem server_pages_match_raw_witness:
  "concat (map (\<lambda>i. response_rows (fst (handle sample_server
                      (Data_Using_Pagination (Some (int i + 1)) (Some 2)))))
               [0..<ceil_div (length (df sample_server)) (nat 2)]) =
   response_rows (fst (handle sample_server Serving_Raw_Dataset))"
proof -
  have h1: "\<forall>r\<in>set (df sample_server). complete_row r"
    by code_simp
  have h2: "\<forall>r\<in>set (df sample_server). row_dates_in_range r"
    by code_simp
  have h3: "int (length (df sample_server)) \<le> max_limit_offset"
    by code_simp
  show ?thesis
    using server_pages_match_raw [OF sample_server_reachable h1 h2, of 2] h3 by simp
qed

text \<open>C20. When the loaded table is non-empty and has no null cell, a request
  leaves a connection open only when it is a valid page request whose offset
  DuckDB refuses: after any sequence of requests, the number of open
  connections is the one the process started with plus the number of those
  requests.\<close>

theorem server_open_connections:
  assumes "startup raw st0 = Inr s" and "df s \<noteq> []" and "\<forall>r\<in>set (df s). complete_row r"
    and "\<forall>r\<in>set (df s). row_dates_in_range r"
  shows "open_conns (db (snd (run s rqs))) = open_conns st0 + length (filter page_offset_rejected rqs)"
proof -
  have "tables (db s) gym_table = Some (df s)" and "open_conns (db s) = open_conns st0"
    using assms(1) by (auto simp: startup_Inr tables_create_table open_conns_create_table)
  then show ?thesis
    using run_open_conns [of s rqs] assms(2-4) by simp
qed

theorem server_open_connections_witness:
  "open_conns (db (snd (run sample_server
      [Data_Using_Pagination (Some 1) (Some 2), Churn_By_Membership_Count,
       Data_Using_Pagination (Some (2 ^ 62)) (Some 2), Data_Using_Pagination (Some 0) None]))) = 1"
proof -
  let ?rqs = "[Data_Using_Pagination (Some 1) (Some 2), Churn_By_Membership_Count,
               Data_Using_Pagination (Some (2 ^ 62)) (Some 2), Data_Using_Pagination (Some 0) None]"
  have h1: "df sample_server \<noteq> []" and h2: "\<forall>r\<in>set (df sample_server). complete_row r"
    and h3: "\<forall>r\<in>set (df sample_server). row_dates_in_range r"
    by code_simp+
  have e: "open_conns (db (snd (run sample_server ?rqs))) =
           open_conns sample_server_store + length (filter page_offset_rejected ?rqs)"
    by (rule server_open_connections [OF sample_server_startup h1 h2 h3])
  have c: "length (filter page_offset_rejected ?rqs) = 1"
    by (simp add: page_offset_rejected_def validate_page_params_def max_limit_offset_def)
  show ?thesis unfolding e c by (simp add: sample_server_store_def)
qed

text \<open>C21. A date polars reads but Python cannot hold breaks the raw route for
  good: when a CSV row has a join date that chrono parses to a day outside
  years 1..9999 (such as \<^verbatim>\<open>0000-01-01\<close> or \<^verbatim>\<open>+10000-01-01\<close>), the
  load keeps the row and the server starts, but in every later state
  \<^verbatim>\<open>/serving_raw_dataset\<close> answers with a server error.\<close>

theorem server_far_date_breaks_raw_route:
  assumes "reachable raw st0 s" and "r \<in> set raw" and "join_date r = Some j"
    and "naive_date_from_str j = Some d" and "\<not> python_date_range d"
  shows "\<exists>msg. fst (handle s Serving_Raw_Dataset) = Failure (Internal_Server_Error msg)"
proof -
  have "serving_load raw = Inr (df s)"
    using reachable_inv [OF assms(1)] by (simp add: server_inv_def)
  then obtain r' where "r' \<in> set (df s)" and "join_date r' = Some d"
    using served_row_of_raw [OF _ assms(2,3)] assms(4) by force
  moreover have "\<not> row_dates_in_range r'"
    using \<open>join_date r' = Some d\<close> assms(5) by (simp add: row_dates_in_range_def)
  ultimately have "\<not> list_all row_dates_in_range (df s)"
    by (auto simp: list_all_iff)
  then show ?thesis by (simp add: get_rawdata_as_json_def)
qed

theorem server_far_date_breaks_raw_route_witness:
  "\<exists>s. startup sample_raw_year0 sample_server_store = Inr s \<and>
       (\<exists>msg. fst (handle s Serving_Raw_Dataset) = Failure (Internal_Server_Error msg))"
proof -
  obtain s where s: "startup sample_raw_year0 sample_server_store = Inr s"
    using sample_year0_startup by blast
  have r: "reachable sample_raw_year0 sample_server_store s" using s by (rule reachable.start)
  let ?r = "raw_member 1 (Some ''Ann'') (Some 20) (Some ''0000-01-01'') (Some ''2024-03-01'')"
  have h1: "?r \<in> set sample_raw_year0" by (simp add: sample_raw_year0_def)
  have h2: "join_date ?r = Some ''0000-01-01''" by (simp add: raw_member_def)
  have h3: "naive_date_from_str ''0000-01-01'' = Some (-719528)" by code_simp
  have h4: "\<not> python_date_range (-719528)"
    by (simp add: python_date_range_def days_from_civil_def days_before_year_def leaps_upto_def
        days_before_month_def days_in_month_def is_leap_def)
  show ?thesis using s server_far_date_breaks_raw_route [OF r h1 h2 h3 h4] by blast
qed

text \<open>Restarting the process on the same CSV over the store it left is
  idempotent: \<^verbatim>\<open>CREATE OR REPLACE\<close> rebuilds the same table and the server
  state is the same.\<close>

theorem server_restart_idempotent:
  "startup raw st0 = Inr s \<Longrightarrow> startup raw (db s) = Inr s"
  by (auto simp: startup_Inr create_table_eq)

theorem server_restart_idempotent_witness:
  "startup sample_raw_complete (db sample_server) = Inr sample_server"
  using server_restart_idempotent [OF sample_server_startup] .

text \<open>C22. Every page the server answers is well formed, whatever its state
  and the request: the parameters passed validation (\<open>1 \<le> page\<close>,
  \<open>1 \<le> page_size \<le> 100\<close>), the total is a row count, and the page holds at most
  \<open>page_size\<close> items and no more than the rows after its offset.\<close>

theorem server_pages_well_formed:
  "fst (handle s rq) = Page p \<Longrightarrow> paginated_wf p"
proof (cases rq)
  case (Data_Using_Pagination pg_q ps_q)
  assume h: "fst (handle s rq) = Page p"
  let ?pg = "case pg_q of None \<Rightarrow> 1 | Some v \<Rightarrow> v"
  let ?ps = "case ps_q of None \<Rightarrow> 10 | Some v \<Rightarrow> v"
  have e: "fst (pagination_endpoint (db s) pg_q ps_q) = Inr p"
    using h Data_Using_Pagination by (auto simp: fst_respond split: sum.splits)
  then have v: "validate_page_params ?pg ?ps = []"
    by (auto simp: pagination_endpoint_def Let_def split: if_splits)
  then have "fst (get_paginated_date (db s) ?pg ?ps) = Inr p"
    using e by (simp add: pagination_endpoint_def Let_def)
  moreover have "1 \<le> ?pg" "1 \<le> ?ps" "?ps \<le> 100"
    using v by (simp_all add: validate_page_params_Nil_iff)
  ultimately show ?thesis by (rule get_paginated_date_wf)
qed (auto simp: fst_respond split: sum.splits)

theorem server_pages_well_formed_witness:
  "\<exists>p. fst (handle sample_server (Data_Using_Pagination (Some 2) (Some 2))) = Page p \<and> paginated_wf p"
proof -
  have "case fst (handle sample_server (Data_Using_Pagination (Some 2) (Some 2))) of Page p \<Rightarrow> True | _ \<Rightarrow> False"
    by code_simp
  then obtain p where h: "fst (handle sample_server (Data_Using_Pagination (Some 2) (Some 2))) = Page p"
    by (auto split: response.splits)
  show ?thesis using server_pages_well_formed [OF h] h by blast
qed

end
