(* ===== verification/Process.thy ===== *)
theory Process
  imports Server Cleaning
begin

text \<open>
  The two programs as processes over a file system. Both compute their input
  path from the working directory: \<^verbatim>\<open>src/app/main.py\<close> sets
  \<^verbatim>\<open>POLARS_VERBOSE\<close> (line 9), reads the CSV at \<open>csv_path\<close> (lines 12, 17),
  runs the serving load, and creates its table in the DuckDB file at
  \<open>duckdb_path\<close> (lines 14, 64), which DuckDB creates when it is missing; then
  uvicorn serves requests (line 170). \<^verbatim>\<open>src/analytics/data_cleaning.py\<close>
  reads the CSV at the same path (lines 7, 9) and cleans it. Files hold what
  the programs read: parsed CSV rows or the tables of a DuckDB file (a
  process that opens the file starts with no open connection); reading a CSV
  as a database or a missing CSV is an error of \<open>process_error\<close>.
\<close>

datatype fs_entry = Csv_File "raw_row list" | Db_File "string \<rightharpoonup> table"

record os_state =
  cwd :: string
  environ :: "string \<rightharpoonup> string"
  files :: "string \<rightharpoonup> fs_entry"

datatype process_error =
    File_Not_Found string
  | Not_A_Database string
  | Import_Failed load_error

definition csv_path :: "string \<Rightarrow> string" where
  "csv_path c = c @ ''/data/gym_members_dataset.csv''"

definition duckdb_path :: "string \<Rightarrow> string" where
  "duckdb_path c = c @ ''/data/gym_members_dataset.db''"

definition cleaning_csv_path :: "string \<Rightarrow> string" where
  "cleaning_csv_path c = c @ ''/data/gym_members_dataset.csv''"

definition set_polars_verbose :: "os_state \<Rightarrow> os_state" where
  "set_polars_verbose os = os\<lparr>environ := (environ os)(''POLARS_VERBOSE'' \<mapsto> ''1'')\<rparr>"

definition read_csv :: "os_state \<Rightarrow> string \<Rightarrow> process_error + raw_row list" where
  "read_csv os p =
     (case files os p of
        Some (Csv_File rows) \<Rightarrow> Inr rows
      | _ \<Rightarrow> Inl (File_Not_Found p))"

definition fresh_store :: store where
  "fresh_store = \<lparr>tables = Map.empty, open_conns = 0\<rparr>"

definition open_db :: "os_state \<Rightarrow> string \<Rightarrow> process_error + store" where
  "open_db os p =
     (case files os p of
        None \<Rightarrow> Inr fresh_store
      | Some (Db_File tbls) \<Rightarrow> Inr \<lparr>tables = tbls, open_conns = 0\<rparr>
      | Some (Csv_File _) \<Rightarrow> Inl (Not_A_Database p))"

definition api_import :: "os_state \<Rightarrow> process_error + server \<times> os_state" where
  "api_import os =
     (let os1 = set_polars_verbose os; c = cwd os1 in
      case read_csv os1 (csv_path c) of
        Inl e \<Rightarrow> Inl e
      | Inr raw \<Rightarrow>
          (case serving_load raw of
             Inl e \<Rightarrow> Inl (Import_Failed e)
           | Inr t \<Rightarrow>
               (case open_db os1 (duckdb_path c) of
                  Inl e \<Rightarrow> Inl e
                | Inr st0 \<Rightarrow>
                    (let s = \<lparr>df = t, db = create_table t st0\<rparr> in
                     Inr (s, os1\<lparr>files := (files os1)(duckdb_path c \<mapsto> Db_File (tables (db s)))\<rparr>)))))"

definition api_main :: "os_state \<Rightarrow> request list \<Rightarrow> process_error + response list" where
  "api_main os rqs = (case api_import os of Inl e \<Rightarrow> Inl e | Inr (s, _) \<Rightarrow> Inr (fst (run s rqs)))"

definition cleaning_main :: "timestamp \<Rightarrow> os_state \<Rightarrow> process_error + cleaned_row list" where
  "cleaning_main now os = map_sum id (data_cleaning now) (read_csv os (cleaning_csv_path (cwd os)))"

definition sample_os :: os_state where
  "sample_os = \<lparr>cwd = ''/srv/gym'', environ = Map.empty,
                files = [csv_path ''/srv/gym'' \<mapsto> Csv_File sample_raw_complete]\<rparr>"

lemma csv_path_ne_duckdb_path [simp]: "csv_path c \<noteq> duckdb_path c"
  by (simp add: csv_path_def duckdb_path_def)

lemma cleaning_csv_path_eq: "cleaning_csv_path c = csv_path c"
  by (simp add: cleaning_csv_path_def csv_path_def)

lemma api_import_Inr:
  "api_import os = Inr (s, os') \<longleftrightarrow>
   (\<exists>raw st0. read_csv os (csv_path (cwd os)) = Inr raw \<and> serving_load raw = Inr (df s) \<and>
      open_db os (duckdb_path (cwd os)) = Inr st0 \<and> db s = create_table (df s) st0 \<and>
      os' = (set_polars_verbose os)\<lparr>files := (files os)(duckdb_path (cwd os) \<mapsto> Db_File (tables (db s)))\<rparr>)"
  by (auto simp: api_import_def Let_def set_polars_verbose_def read_csv_def open_db_def
      split: sum.splits option.splits fs_entry.splits)

lemma api_import_missing_csv:
  "files os (csv_path (cwd os)) = None \<Longrightarrow> api_import os = Inl (File_Not_Found (csv_path (cwd os)))"
  by (simp add: api_import_def Let_def read_csv_def set_polars_verbose_def)

lemma read_csv_after_import:
  "api_import os = Inr (s, os') \<Longrightarrow>
   cwd os' = cwd os \<and> read_csv os' (csv_path (cwd os)) = read_csv os (csv_path (cwd os))"
  by (auto simp: api_import_Inr read_csv_def set_polars_verbose_def split: option.split fs_entry.split)

lemma sample_os_imports: "\<exists>s os'. api_import sample_os = Inr (s, os')"
proof -
  have "case api_import sample_os of Inr _ \<Rightarrow> True | Inl _ \<Rightarrow> False" by code_simp
  then show ?thesis by (auto split: sum.splits)
qed

text \<open>C23. Restarting the API in the same directory, on the files the first
  run left, gives the same server state and the same files: the CSV is read
  again unchanged, the database file is opened with the table the first run
  created, and \<^verbatim>\<open>CREATE OR REPLACE\<close> rewrites the same table.\<close>

theorem api_restart_same_state:
  assumes "api_import os = Inr (s, os')"
  shows "api_import os' = Inr (s, os')"
proof -
  obtain raw st0 where r: "read_csv os (csv_path (cwd os)) = Inr raw" and l: "serving_load raw = Inr (df s)"
    and o: "open_db os (duckdb_path (cwd os)) = Inr st0" and d: "db s = create_table (df s) st0"
    and os': "os' = (set_polars_verbose os)\<lparr>files := (files os)(duckdb_path (cwd os) \<mapsto> Db_File (tables (db s)))\<rparr>"
    using assms by (auto simp: api_import_Inr)
  have c0: "open_conns st0 = 0"
    using o by (auto simp: open_db_def fresh_store_def split: option.splits fs_entry.splits)
  have "read_csv os' (csv_path (cwd os')) = Inr raw"
    using read_csv_after_import [OF assms] r by (simp only:)
  moreover have "open_db os' (duckdb_path (cwd os')) = Inr \<lparr>tables = tables (db s), open_conns = 0\<rparr>"
    using os' by (simp add: open_db_def set_polars_verbose_def)
  moreover have "create_table (df s) \<lparr>tables = tables (db s), open_conns = 0\<rparr> = db s"
    using d c0 by (simp add: create_table_eq)
  moreover have "(set_polars_verbose os')\<lparr>files := (files os')(duckdb_path (cwd os') \<mapsto> Db_File (tables (db s)))\<rparr> = os'"
    using os' by (simp add: set_polars_verbose_def)
  ultimately show ?thesis using l by (simp add: api_import_Inr)
qed

theorem api_restart_same_state_witness:
  "\<exists>s os'. api_import sample_os = Inr (s, os') \<and> api_import os' = Inr (s, os')"
proof -
  obtain s os' where h: "api_import sample_os = Inr (s, os')" using sample_os_imports by blast
  show ?thesis using api_restart_same_state [OF h] h by blast
qed

end
