(* ===== verification/Spec2Isabelle.thy ===== *)
theory Spec2Isabelle
  imports Charts Process
begin

text \<open>
  \<^bold>\<open>Gym membership churn: a verification development.\<close>

  \<^bold>\<open>The program.\<close> The repository has two independent Python pipelines over
  one CSV of gym members (one row per member, fifteen columns):
  \<^item> \<^verbatim>\<open>src/analytics/data_cleaning.py\<close>, a batch script: drop rows without
    a member id or age, fill missing names with \<^verbatim>\<open>'Unknown'\<close>, parse the two
    date columns with pandas (a bad date becomes null), print value counts of
    the text columns, derive \<^verbatim>\<open>Membership_Period_Days\<close> and
    \<^verbatim>\<open>Days_Since_Last_Visit\<close>, and draw four charts;
  \<^item> \<^verbatim>\<open>src/app/main.py\<close> with the response models of
    \<^verbatim>\<open>src/app/schemas.py\<close>, an API process: at import it loads the CSV with
    polars and its own policy (\<^verbatim>\<open>'Test Name'\<close>, mean imputation of four
    numeric columns, rows without a join date dropped, a strict date cast),
    writes the result into the DuckDB table \<^verbatim>\<open>gym_membership_data\<close>
    (\<^verbatim>\<open>create_table\<close>) and then serves four GET routes: the raw
    dataframe, churn counts per membership type, members per favorite
    exercise, and a paginated listing.
  The pipelines share nothing but the input file; inside the API the routes
  share the dataframe and the store, which only the import writes.

  \<^bold>\<open>The library.\<close>
  \<^item> \<open>Prelude\<close>: day numbers and timestamps, \<open>slice\<close> (SQL's
    \<^verbatim>\<open>LIMIT/OFFSET\<close> on rows), \<open>ceil_div\<close> (the page count), and the
    list, count, sort and mean lemmas the components share (collections
    \<open>page_simps\<close>, \<open>count_simps\<close>).
  \<^item> \<open>Dates\<close>: dates as day numbers (\<open>days_from_civil\<close>); the two
    libraries' readers of a date string: chrono's \<open>naive_date_from_str\<close>
    behind polars' strict \<open>cast_date\<close>, and pandas' ISO parser
    \<open>pandas_iso_date\<close> with the \<^verbatim>\<open>datetime64[ns]\<close> range behind the
    coercing \<open>to_datetime_coerce\<close>; Python's \<^verbatim>\<open>date\<close> range
    \<open>python_date_range\<close>.
  \<^item> \<open>Member\<close>: the row record \<open>'d member_row\<close> (every cell an
    \<open>option\<close>: a null), \<open>MemberData\<close> and \<open>PaginatedItems\<close> of
    \<^verbatim>\<open>schemas.py\<close>, pydantic's construction as \<open>to_member_data\<close>, which
    fails with the null fields, \<open>row_dates_in_range\<close>, and the API errors
    \<open>api_error\<close> (422, 500).
  \<^item> \<open>Store\<close>: the DuckDB file as the record \<open>store\<close> (tables by name and
    the count of open connections); \<open>connect\<close>, \<open>close_conn\<close>,
    \<open>create_table\<close> (\<^verbatim>\<open>CREATE OR REPLACE\<close>), \<open>scan\<close>, and the paged
    query \<open>fetch_page\<close>: \<open>limit_offset\<close> with DuckDB's bound
    \<open>max_limit_offset\<close> \<open>= 2^62\<close>, then \<open>fetchall\<close>, which fails on a
    date Python cannot hold.
  \<^item> \<open>Queries\<close>: the handlers \<open>get_churn_data\<close>, \<open>get_member_data\<close>,
    \<open>get_paginated_date\<close> and the validated route \<open>pagination_endpoint\<close>,
    each a function from the store to its answer and the next store; the SQL
    queries as list functions (\<open>churn_by_membership\<close>,
    \<open>exercise_member_count\<close>), and \<open>churn_spec\<close>, the answers SQL allows.
  \<^item> \<open>Serving\<close>: the import-time load \<open>serving_load\<close> (main.py 17--33):
    \<open>fill_serving_nulls\<close>, \<open>drop_null_join_date\<close>, \<open>cast_dates\<close>, with
    errors as \<open>load_error\<close>.
  \<^item> \<open>Server\<close>: the process as a state machine: \<open>server\<close> (dataframe and
    store), \<open>startup\<close>, one \<open>request\<close> constructor per route, \<open>handle\<close>
    (the raw route \<open>get_rawdata_as_json\<close> fails when \<^verbatim>\<open>to_dicts()\<close> meets
    a date out of Python's range), \<open>run\<close> over a list of requests, and the
    inductive \<open>reachable\<close>.
  \<^item> \<open>Process\<close>: both programs over a file system (\<open>os_state\<close>):
    the environment, the paths computed from the working directory, reading the
    CSV, opening or creating the DuckDB file (a file holds tables; a new
    process has no open connection), the API's import \<open>api_import\<close> (which
    runs \<open>serving_load\<close> and \<open>create_table\<close>), uvicorn's serving
    \<open>api_main\<close> and the script's \<open>cleaning_main\<close>.
  \<^item> \<open>Cleaning\<close>: the batch script: \<open>clean_members\<close>, \<open>value_counts\<close>,
    the extended record \<open>cleaned_row\<close> with the derived columns
    (\<open>data_cleaning now\<close>, for the run time \<open>now\<close>).
  \<^item> \<open>Charts\<close>: the data the charts are drawn from (\<open>age_histogram\<close>
    with numpy's binning \<open>hist_bin\<close>, \<open>membership_pie\<close>,
    \<open>churned_df\<close>, \<open>active_df\<close>, \<open>workout_comparison\<close>,
    \<open>gender_churn_table\<close>).
  Every definition is executable; the witnesses evaluate them on the sample
  tables of each theory with \<open>code_simp\<close>.

  \<^bold>\<open>What is proved\<close> (claims C1--C30, each after a text naming it).
  \<^item> Pagination (C1--C8): a valid page is the \<^verbatim>\<open>LIMIT/OFFSET\<close> slice
    with the right total when DuckDB accepts its offset; its length; the
    pages partition the table; exactly \<open>\<lceil>total / page_size\<rceil>\<close> pages are
    non-empty; invalid parameters are rejected before the handler; the
    connection the empty-table path leaves open; the server error caused by a
    null cell; and the server error, with the connection left open, exactly
    when the offset passes DuckDB's bound \<open>2^62\<close>, which FastAPI's
    validation does not prevent. The table-level claims assume at most
    \<open>2^62\<close> rows (a polars frame has at most \<open>2^32\<close> rows in its default
    build) and dates Python can hold.
  \<^item> Churn and exercise queries (C9--C12): order, exact counts including the
    NULL group, independence of the tie order SQL leaves open (C11, through
    \<open>churn_spec\<close>), distinct member counts.
  \<^item> Serving load (C13--C17): the join-date invariant, kept rows, when the
    load succeeds (chrono reads unpadded and blank-padded dates) and when the
    strict cast aborts it, mean imputation over the table before the drop
    (lemmas: name filling, the bounds of the imputed mean).
  \<^item> Server (C18--C22): by rule induction over \<open>reachable\<close>, the store
    always holds the loaded table (a lemma: store queries never fail); the
    paginated and raw routes agree; the open connections after any run of
    requests are exactly one per page request DuckDB refused; a date chrono
    reads but Python cannot hold (year 0) is loaded and then breaks the raw
    route for good; every page response satisfies the contract
    \<open>paginated_wf\<close>.
  \<^item> Process (C23): restarting the API in the same directory gives the same
    state and files.
  \<^item> Cleaning and charts (C24--C29): kept rows, names, the two derived
    columns, the pie chart's labels following the frequency rank whatever the
    data, and the twenty histogram bars counting every cleaned member once
    (lemmas: value counts, the churn split, the pie's three-category need, the
    crosstab totals, numpy's bin edges).
  \<^item> Across the pipelines (C30, below): for a member both keep, the cleaning
    script reads the join date the API serves or null, and null whenever the
    date is outside pandas' nanosecond range; this rests on the lemma that
    every string pandas' ISO parser reads, chrono reads to the same day
    (\<open>pandas_iso_date_chrono\<close>).

  \<^bold>\<open>Modelling choices.\<close> Python floats are exact reals (no rounding); Python
  ints are \<open>int\<close>. SQL does not fix the order of groups or of rows without
  \<^verbatim>\<open>ORDER BY\<close>: the model reads rows in storage order, which is the
  dataframe's, groups in order of first appearance and breaks ties by a stable
  sort; C10/C11 show the churn counts do not depend on that choice. Dates
  follow chrono 0.4's \<^verbatim>\<open>NaiveDate::from_str\<close> (ASCII white space, years
  -262143..262142) for polars and pandas 2's ISO path under the inferred
  format \<^verbatim>\<open>%Y-%m-%d\<close> for pandas. A connection is counted open from
  \<^verbatim>\<open>connect\<close> to \<^verbatim>\<open>close()\<close> (CPython may release an unclosed one when
  its last reference goes). No loop of the program needs fuel: every loop is
  over a finite list.

  \<^bold>\<open>Not modelled.\<close> The parsing of the CSV text (a file holds its parsed
  rows, the same for both programs, although pandas and polars read markers
  such as \<^verbatim>\<open>NA\<close> differently), pandas' \<^verbatim>\<open>dateutil\<close> fallback when a
  column's first date is not ISO, pydantic's type checks beyond nulls, writing
  images and the drawing calls of matplotlib (the charts are modelled by the
  data they draw), uvicorn's networking (requests are served one after
  another, \<open>run\<close>), what \<^verbatim>\<open>POLARS_VERBOSE\<close> makes polars log, and the
  JSON text FastAPI writes (a response is the value a route returns).
\<close>

definition sample_far_raw :: "raw_row list" where
  "sample_far_raw =
     [raw_member 1 (Some ''Ann'') (Some 20) (Some ''2023-01-15'') (Some ''2024-03-01''),
      raw_member 9 (Some ''Ed'') (Some 31) (Some ''3023-01-15'') (Some ''2024-03-01'')]"
  \<comment> \<open>a join date mistyped into the year 3023: a valid date past pandas' range\<close>


lemma cleaned_row_of_raw:
  assumes "r \<in> set raw" and "member_id r \<noteq> None" and "age r \<noteq> None"
  shows "\<exists>cr\<in>set (data_cleaning now raw). member_id cr = member_id r \<and>
           join_date cr = to_datetime_coerce (join_date r) \<and>
           membership_period_days cr =
             membership_period (with_dates r (to_datetime_coerce (join_date r))
                                             (to_datetime_coerce (last_visit_date r)))"
proof -
  have "r \<in> set (filter (\<lambda>r. member_id r \<noteq> None \<and> age r \<noteq> None) raw)" using assms by simp
  then show ?thesis
    by (force simp: data_cleaning_eq clean_members_eq membership_period_def with_dates_def)
qed

text \<open>C30. Where both pipelines keep a member, the cleaning script never reads
  its join date differently from the API: it reads the day the API serves, or
  null. It reads null whenever that day lies outside pandas' nanosecond range
  (before 1677-09-22 or after 2262-04-11), which the API serves without
  complaint, and then \<^verbatim>\<open>Membership_Period_Days\<close> is null as well.\<close>

theorem pipelines_join_dates_agree:
  assumes "serving_load raw = Inr t" and "r \<in> set raw" and "member_id r \<noteq> None"
    and "age r \<noteq> None" and "join_date r = Some s"
  shows "\<exists>d. naive_date_from_str s = Some d \<and>
             (\<exists>sr\<in>set t. member_id sr = member_id r \<and> join_date sr = Some d) \<and>
             (\<exists>cr\<in>set (data_cleaning now raw). member_id cr = member_id r \<and>
                (join_date cr = Some d \<or> join_date cr = None) \<and>
                (\<not> datetime64_ns_range d \<longrightarrow> join_date cr = None \<and> membership_period_days cr = None))"
proof -
  obtain d where d: "naive_date_from_str s = Some d"
    and sr: "\<exists>sr\<in>set t. member_id sr = member_id r \<and> join_date sr = Some d"
    using served_row_of_raw [OF assms(1,2,5)] by blast
  obtain cr where cr: "cr \<in> set (data_cleaning now raw)" "member_id cr = member_id r"
    and j: "join_date cr = to_datetime_coerce (Some s)"
    and p: "membership_period_days cr =
              membership_period (with_dates r (to_datetime_coerce (Some s))
                                              (to_datetime_coerce (last_visit_date r)))"
    using cleaned_row_of_raw [OF assms(2-4), of now] assms(5) by auto
  have same: "join_date cr = Some d \<or> join_date cr = None"
    using j d to_datetime_coerce_chrono [of s] by (cases "to_datetime_coerce (Some s)") auto
  have far: "\<not> datetime64_ns_range d \<longrightarrow> join_date cr = None \<and> membership_period_days cr = None"
    using j p to_datetime_coerce_far [OF d]
    by (simp add: membership_period_def with_dates_def split: option.split)
  show ?thesis using d sr cr same far by blast
qed

theorem pipelines_join_dates_agree_witness:
  "\<exists>t. serving_load sample_far_raw = Inr t \<and>
     (\<exists>sr\<in>set t. member_id sr = Some 9 \<and> join_date sr = Some 384614) \<and>
     (\<exists>cr\<in>set (data_cleaning 0 sample_far_raw). member_id cr = Some 9 \<and>
        join_date cr = None \<and> membership_period_days cr = None)"
proof -
  have "\<forall>r\<in>set sample_far_raw. join_date r \<noteq> None \<longrightarrow> dates_parse r"
    by code_simp
  then obtain t where t: "serving_load sample_far_raw = Inr t"
    using serving_load_Inr_iff by blast
  let ?r = "raw_member 9 (Some ''Ed'') (Some 31) (Some ''3023-01-15'') (Some ''2024-03-01'')"
  have h1: "?r \<in> set sample_far_raw" by (simp add: sample_far_raw_def)
  have h2: "member_id ?r \<noteq> None" "age ?r \<noteq> None" "join_date ?r = Some ''3023-01-15''"
    by (simp_all add: raw_member_def)
  have d: "naive_date_from_str ''3023-01-15'' = Some 384614" by code_simp
  have nr: "\<not> datetime64_ns_range 384614" by (simp add: datetime64_ns_range_def)
  obtain d' where
    d': "naive_date_from_str ''3023-01-15'' = Some d'" and
    sr: "\<exists>sr\<in>set t. member_id sr = Some 9 \<and> join_date sr = Some d'" and
    cr: "\<exists>cr\<in>set (data_cleaning 0 sample_far_raw). member_id cr = Some 9 \<and>
           (join_date cr = Some d' \<or> join_date cr = None) \<and>
           (\<not> datetime64_ns_range d' \<longrightarrow> join_date cr = None \<and> membership_period_days cr = None)"
    using pipelines_join_dates_agree [OF t h1 h2, of 0] by (auto simp: raw_member_def)
  have "d' = 384614" using d d' by simp
  then show ?thesis using t sr cr nr by blast
qed

end
